theory Spec2Isabelle
  imports Complex_Main
begin

section \<open>Tensors under gradient tracking\<close>

text \<open>
  The model of \<^verbatim>\<open>MachineLearning/GNN_Models.py\<close> computes with tensors whose entries are
  floating-point numbers; they are idealised here as real numbers. A scalar that takes
  part in the autograd graph is a pair: its value, and its gradient with respect to the
  input positions as reverse-mode differentiation hands it back. The gradient lives in
  an arbitrary real vector space \<open>'g\<close> (one coordinate per position entry).
\<close>

record 'g tracked =
  val :: real
  grad :: 'g

definition t_const :: "real \<Rightarrow> ('g::real_vector) tracked" where
  "t_const r = \<lparr>val = r, grad = 0\<rparr>"

definition t_add :: "('g::real_vector) tracked \<Rightarrow> 'g tracked \<Rightarrow> 'g tracked" where
  "t_add a b = \<lparr>val = val a + val b, grad = grad a + grad b\<rparr>"

definition t_mul :: "('g::real_vector) tracked \<Rightarrow> 'g tracked \<Rightarrow> 'g tracked" where
  "t_mul a b = \<lparr>val = val a * val b, grad = val a *\<^sub>R grad b + val b *\<^sub>R grad a\<rparr>"

definition t_scale :: "real \<Rightarrow> ('g::real_vector) tracked \<Rightarrow> 'g tracked" where
  "t_scale r a = \<lparr>val = r * val a, grad = r *\<^sub>R grad a\<rparr>"

definition sigmoid :: "real \<Rightarrow> real" where
  "sigmoid x = 1 / (1 + exp (- x))"

definition t_sigmoid :: "('g::real_vector) tracked \<Rightarrow> 'g tracked" where
  "t_sigmoid a =
     \<lparr>val = sigmoid (val a),
      grad = (sigmoid (val a) * (1 - sigmoid (val a))) *\<^sub>R grad a\<rparr>"

text \<open>\<^verbatim>\<open>torch.nn.SiLU\<close>: \<open>x * sigmoid x\<close>.\<close>

definition t_silu :: "('g::real_vector) tracked \<Rightarrow> 'g tracked" where
  "t_silu a = t_mul a (t_sigmoid a)"

text \<open>
  A tensor computed inside \<^verbatim>\<open>with torch.no_grad():\<close> keeps its value and is a
  constant of the autograd graph.
\<close>

definition no_grad :: "('g::real_vector) tracked \<Rightarrow> 'g tracked" where
  "no_grad a = \<lparr>val = val a, grad = 0\<rparr>"

text \<open>\<^verbatim>\<open>tensor.sum()\<close> over a vector of tracked scalars.\<close>

fun t_sum :: "('g::real_vector) tracked list \<Rightarrow> 'g tracked" where
  "t_sum [] = t_const 0"
| "t_sum (a # as) = t_add a (t_sum as)"

text \<open>
  Lines 427-430 of \<^verbatim>\<open>GNN_Models.py\<close>:
  \<^verbatim>\<open>Bcn = Bc[:, 0] * (self._fraction + self.sigmoid(c_scale) * (1 - self._fraction) * 2)\<close>
  for one atom.
\<close>

definition corrected_born :: "real \<Rightarrow> ('g::real_vector) tracked \<Rightarrow> 'g tracked \<Rightarrow> 'g tracked" where
  "corrected_born fraction B c_scale =
     t_mul B (t_add (t_const fraction) (t_scale 2 (t_scale (1 - fraction) (t_sigmoid c_scale))))"

section \<open>Errors\<close>

text \<open>
  The exceptions the modelled code can raise, by class; \<open>IndexError\<close> and
  \<open>Exception\<close> carry their message.
\<close>

datatype error =
  TypeError
| RuntimeError
| IndexError string
| AssertionError
| ZeroDivisionError
| ValueError
| Exception string

section \<open>Neighbour graphs\<close>

text \<open>
  An edge is \<open>(source, target)\<close>: a column \<^verbatim>\<open>(edge_index[0][k], edge_index[1][k])\<close> of
  the \<^verbatim>\<open>edge_index\<close> tensor.
\<close>

type_synonym edge = "nat \<times> nat"

text \<open>
  Modelled from the spec: the neighbour-graph builder. The source calls
  \<^verbatim>\<open>torch_geometric.nn.radius_graph(positions, r, batch, False, max_num_neighbors,
  'source_to_target', 1)\<close>, a library routine that is not part of the repository. Section
  4.1 of the specification gives its contract: for every ordered pair of atoms \<open>i \<noteq> j\<close>
  with the same batch id and distance at most the radius there is an edge, at most
  \<open>max_neighbors\<close> incoming edges are kept per target atom, nearest first (ties
  deterministically, here by index), and without batch ids all atoms form one molecule.
  The fourth argument is the library's \<^verbatim>\<open>loop\<close> flag.
\<close>

definition same_batch :: "nat list option \<Rightarrow> nat \<Rightarrow> nat \<Rightarrow> bool" where
  "same_batch batch i j = (case batch of None \<Rightarrow> True | Some b \<Rightarrow> b ! i = b ! j)"

definition neighbours ::
  "('p \<Rightarrow> 'p \<Rightarrow> real) \<Rightarrow> 'p list \<Rightarrow> real \<Rightarrow> nat list option \<Rightarrow> bool \<Rightarrow> nat \<Rightarrow> nat \<Rightarrow> nat list" where
  "neighbours d pos r batch loop max_nb i =
     take max_nb
       (sort_key (\<lambda>j. d (pos ! j) (pos ! i))
          (filter (\<lambda>j. (loop \<or> j \<noteq> i) \<and> same_batch batch i j \<and> d (pos ! j) (pos ! i) \<le> r)
             [0..<length pos]))"

definition radius_graph ::
  "('p \<Rightarrow> 'p \<Rightarrow> real) \<Rightarrow> 'p list \<Rightarrow> real \<Rightarrow> nat list option \<Rightarrow> bool \<Rightarrow> nat \<Rightarrow> edge list" where
  "radius_graph d pos r batch loop max_nb =
     concat (map (\<lambda>i. map (\<lambda>j. (j, i)) (neighbours d pos r batch loop max_nb i))
                 [0..<length pos])"

section \<open>The model class\<close>

text \<open>
  \<^verbatim>\<open>GNN3_all_swish_multiple_peptides_GBNeck_trainable_dif_graphs_corr_with_separate_SA\<close>
  with the attributes its \<^verbatim>\<open>forward\<close> reads. The sub-modules are fields: the two
  feed-forward networks on lambda, and the layers of \<^verbatim>\<open>MachineLearning/GNN_Layers.py\<close>
  (\<^verbatim>\<open>GBNeck_interaction\<close>, \<^verbatim>\<open>IN_layer_all_swish_2pass\<close>, \<^verbatim>\<open>GBNeck_energies\<close>), whose
  code is not among the sources and whose weights are learned. A layer maps the node
  states, the edge list and the edge attributes to one output row per node: it is
  given as the function from a node index to that node's row, the second interaction
  layer and the GB aggregation with their two output channels as a pair. \<open>metric\<close> is
  the distance on position rows that the graph builder uses, \<open>distancer\<close> is
  \<^verbatim>\<open>self._distancer = PairwiseDistance()\<close> with the gradient of each distance.
\<close>

record ('p, 'g) model =
  fraction :: real
  gnn_radius :: real
  gbneck_radius :: real
  max_num_neighbors :: nat
  gnn_params :: "real list list option"
  gamma :: real
  offset :: real
  metric :: "'p \<Rightarrow> 'p \<Rightarrow> real"
  distancer :: "'p \<Rightarrow> 'p \<Rightarrow> 'g tracked"
  sterics_ff :: "real \<Rightarrow> real"
  electrostatics_ff :: "real \<Rightarrow> real"
  aggregate_information ::
    "real list list \<Rightarrow> edge list \<Rightarrow> 'g tracked list \<Rightarrow> nat \<Rightarrow> 'g tracked \<times> 'g tracked"
  interaction1 ::
    "edge list \<Rightarrow> 'g tracked list list \<Rightarrow> 'g tracked list \<Rightarrow> nat \<Rightarrow> 'g tracked list"
  interaction2 ::
    "edge list \<Rightarrow> 'g tracked list list \<Rightarrow> 'g tracked list \<Rightarrow> nat \<Rightarrow> 'g tracked \<times> 'g tracked"
  calculate_energies ::
    "('g tracked \<times> 'g tracked) list \<Rightarrow> edge list \<Rightarrow> 'g tracked list \<Rightarrow> nat \<Rightarrow> 'g tracked"

section \<open>The forward evaluation\<close>

text \<open>
  Lines 366-371: the edge attributes are the distances of the edges' endpoints.
\<close>

definition edge_distances ::
  "('p, 'g) model \<Rightarrow> 'p list \<Rightarrow> edge list \<Rightarrow> 'g tracked list" where
  "edge_distances M positions edge_index =
     map (\<lambda>(s, t). distancer M (positions ! s) (positions ! t)) edge_index"

text \<open>
  Lines 373-378: \<^verbatim>\<open>sterics_scale = self.sterics_ff(lambda.view(-1, 1)) * lambda.view(-1, 1)\<close>,
  one entry per lambda given; the same for the electrostatics.
\<close>

definition lambda_scale :: "(real \<Rightarrow> real) \<Rightarrow> real list \<Rightarrow> real list" where
  "lambda_scale ff lambdas = map (\<lambda>l. ff l * l) lambdas"

text \<open>
  Lines 380-381: without batch ids every atom is in batch 0, the number of atoms read
  off \<^verbatim>\<open>len(self.gnn_params)\<close>, which raises \<^verbatim>\<open>TypeError\<close> on \<^verbatim>\<open>None\<close>.
\<close>

definition default_batch :: "('p, 'g) model \<Rightarrow> nat list option \<Rightarrow> error + nat list" where
  "default_batch M batch =
     (case batch of
        Some b \<Rightarrow> Inr b
      | None \<Rightarrow>
          (case gnn_params M of
             None \<Rightarrow> Inl TypeError
           | Some ps \<Rightarrow> Inr (replicate (length ps) 0)))"

text \<open>
  \<^verbatim>\<open>lambda.view(-1, 1).expand(n, 1)\<close>: a single entry is repeated, \<open>n\<close> entries are kept,
  any other number raises \<^verbatim>\<open>RuntimeError\<close>.
\<close>

definition expand :: "real list \<Rightarrow> nat \<Rightarrow> error + real list" where
  "expand lambdas n =
     (if length lambdas = n then Inr lambdas
      else if length lambdas = 1 then Inr (replicate n (lambdas ! 0))
      else Inl RuntimeError)"

text \<open>
  Lines 383-396: the node features \<open>x\<close>. The stored parameters come first, with the
  two lambdas appended as columns (\<^verbatim>\<open>torch.cat\<close> raises \<^verbatim>\<open>RuntimeError\<close> when the row
  counts differ); then the \<^verbatim>\<open>atom_features\<close> argument; with neither, the exception.
\<close>

definition node_features ::
  "('p, 'g) model \<Rightarrow> 'p list \<Rightarrow> real list \<Rightarrow> real list \<Rightarrow> real list list option
     \<Rightarrow> error + real list list" where
  "node_features M positions lambda_sterics lambda_electrostatics atom_features =
     (case gnn_params M of
        Some ps \<Rightarrow>
          (case expand lambda_electrostatics (length positions) of
             Inl e \<Rightarrow> Inl e
           | Inr le \<Rightarrow>
               (case expand lambda_sterics (length positions) of
                  Inl e \<Rightarrow> Inl e
                | Inr ls \<Rightarrow>
                    if length ps \<noteq> length positions then Inl RuntimeError
                    else Inr (map (\<lambda>i. ps ! i @ [le ! i, ls ! i]) [0..<length ps])))
      | None \<Rightarrow>
          (case atom_features of
             Some x \<Rightarrow> Inr x
           | None \<Rightarrow> Inl (Exception ''No GNN Params Given'')))"

text \<open>
  Lines 399-400: \<^verbatim>\<open>scale[batch]\<close>, an \<^verbatim>\<open>IndexError\<close> when a batch id has no entry.
\<close>

definition index_select :: "real list \<Rightarrow> nat list \<Rightarrow> error + real list" where
  "index_select scale batch =
     (if list_all (\<lambda>b. b < length scale) batch then Inr (map (\<lambda>b. scale ! b) batch)
      else Inl (IndexError ''index out of range''))"

text \<open>
  Lines 423-425: the SA term of one atom, from its feature row and its SA-scale channel:
  \<^verbatim>\<open>radius = x[:, 1] + self.offset\<close>,
  \<^verbatim>\<open>sa_energies = 4.184 * self.gamma * sa_scale * (radius + 0.14).pow(2) * 100\<close>.
\<close>

definition sa_energies ::
  "('p, 'g::real_vector) model \<Rightarrow> real list \<Rightarrow> 'g tracked \<Rightarrow> 'g tracked" where
  "sa_energies M x_row sa_scale =
     (let radius = x_row ! 1 + offset M
      in t_scale 100 (t_scale ((radius + 0.14)\<^sup>2) (t_scale (4.184 * gamma M) sa_scale)))"

text \<open>
  What the evaluation holds for one atom once the layers have run: the GB energy as
  \<^verbatim>\<open>self.calculate_energies\<close> computes it, the SA energy, and the two lambda scales of
  the atom's molecule.
\<close>

record 'g atom_terms =
  elec :: "'g tracked"
  sa :: "'g tracked"
  l_electrostatics :: real
  l_sterics :: real

text \<open>
  Lines 402-437, after the inputs have been checked: GB aggregation on the long-range
  graph, the two interaction layers with a SiLU between them on the short-range graph,
  the SA term, the corrected Born radius, and the GB energies.
\<close>

definition message_passing ::
  "('p, 'g::real_vector) model \<Rightarrow> real list list \<Rightarrow> edge list \<Rightarrow> 'g tracked list \<Rightarrow> edge list
     \<Rightarrow> 'g tracked list \<Rightarrow> real list \<Rightarrow> real list \<Rightarrow> 'g atom_terms list" where
  "message_passing M x edge_index edge_attributes gnn_edge_index gnn_edge_attributes l_e l_s =
     (let atoms = [0..<length x];
          Bc = map (aggregate_information M x edge_index edge_attributes) atoms;
          Bcn = map (\<lambda>i. [fst (Bc ! i), snd (Bc ! i), t_const (x ! i ! 1),
                           t_const (l_s ! i), t_const (l_e ! i)]) atoms;
          Bcn1 = map (interaction1 M gnn_edge_index Bcn gnn_edge_attributes) atoms;
          Bcn2 = map (map t_silu) Bcn1;
          Bcn3 = map (interaction2 M gnn_edge_index Bcn2 gnn_edge_attributes) atoms;
          c_scale = map fst Bcn3;
          sa_scale = map snd Bcn3;
          sa_en = map (\<lambda>i. sa_energies M (x ! i) (sa_scale ! i)) atoms;
          Bc' = map (\<lambda>i. (corrected_born (fraction M) (fst (Bc ! i)) (c_scale ! i), snd (Bc ! i)))
                    atoms
      in map (\<lambda>i. \<lparr>elec = calculate_energies M Bc' edge_index edge_attributes i,
                    sa = sa_en ! i,
                    l_electrostatics = l_e ! i,
                    l_sterics = l_s ! i\<rparr>) atoms)"

text \<open>
  Lines 358-365: the two neighbour graphs of the evaluation, the long-range one for the
  GB layers and the short-range one for the interaction layers, both built without
  loops and with the batch ids passed on.
\<close>

definition forward_edge_index :: "('p, 'g) model \<Rightarrow> 'p list \<Rightarrow> nat list option \<Rightarrow> edge list" where
  "forward_edge_index M positions batch =
     radius_graph (metric M) positions (gbneck_radius M) batch False (max_num_neighbors M)"

definition forward_gnn_edge_index :: "('p, 'g) model \<Rightarrow> 'p list \<Rightarrow> nat list option \<Rightarrow> edge list" where
  "forward_gnn_edge_index M positions batch =
     radius_graph (metric M) positions (gnn_radius M) batch False (max_num_neighbors M)"

text \<open>
  Lines 353-437 with their failures, in the order of the source: the graph builder
  refuses batch ids that are not one per position; the default batch; the node
  features; the lambda scales looked up by batch id; column 1 of \<open>x\<close> must exist, and
  \<^verbatim>\<open>torch.concat\<close> needs as many rows of \<open>x\<close> as batch ids.
\<close>

definition evaluate ::
  "('p, 'g::real_vector) model \<Rightarrow> 'p list \<Rightarrow> real list \<Rightarrow> real list \<Rightarrow> nat list option
     \<Rightarrow> real list list option \<Rightarrow> error + 'g atom_terms list" where
  "evaluate M positions lambda_sterics lambda_electrostatics batch atom_features =
     (if (case batch of None \<Rightarrow> False | Some b \<Rightarrow> length b \<noteq> length positions)
      then Inl AssertionError
      else
        let edge_index = forward_edge_index M positions batch;
            gnn_edge_index = forward_gnn_edge_index M positions batch;
            edge_attributes = edge_distances M positions edge_index;
            gnn_edge_attributes = edge_distances M positions gnn_edge_index;
            sterics_scale = lambda_scale (sterics_ff M) lambda_sterics;
            electrostatics_scale = lambda_scale (electrostatics_ff M) lambda_electrostatics
        in case default_batch M batch of
             Inl e \<Rightarrow> Inl e
           | Inr batch' \<Rightarrow>
               (case node_features M positions lambda_sterics lambda_electrostatics
                       atom_features of
                  Inl e \<Rightarrow> Inl e
                | Inr x \<Rightarrow>
                    (case index_select electrostatics_scale batch' of
                       Inl e \<Rightarrow> Inl e
                     | Inr l_e \<Rightarrow>
                         (case index_select sterics_scale batch' of
                            Inl e \<Rightarrow> Inl e
                          | Inr l_s \<Rightarrow>
                              if \<not> list_all (\<lambda>row. 1 < length row) x
                              then Inl (IndexError ''index 1 is out of bounds for dimension 1'')
                              else if length x \<noteq> length batch' then Inl RuntimeError
                              else Inr (message_passing M x edge_index edge_attributes
                                          gnn_edge_index gnn_edge_attributes l_e l_s)))))"

text \<open>
  Line 442, for one atom:
  \<^verbatim>\<open>energies = elec_energies * l_electrostatics + sa_energies * l_sterics\<close>.
\<close>

definition atom_energy :: "('g::real_vector) tracked \<Rightarrow> real \<Rightarrow> 'g tracked \<Rightarrow> real \<Rightarrow> 'g tracked" where
  "atom_energy elec_energies l_e sa_en l_s =
     t_add (t_mul elec_energies (t_const l_e)) (t_mul sa_en (t_const l_s))"

text \<open>
  Lines 435-442: the GB energies are computed inside \<^verbatim>\<open>with torch.no_grad():\<close>, then
  the energies of all atoms.
\<close>

definition energies :: "('g::real_vector) atom_terms list \<Rightarrow> 'g tracked list" where
  "energies ts = map (\<lambda>t. atom_energy (no_grad (elec t)) (l_electrostatics t) (sa t) (l_sterics t)) ts"

text \<open>
  \<^verbatim>\<open>forward\<close>, lines 345-501. \<^verbatim>\<open>torch.autograd.grad([energies.sum()], inputs=[positions])\<close>
  is the gradient of the summed energies, the forces are its negation
  (\<^verbatim>\<open>torch.neg\<close>), and the pair of the summed energy and the forces is returned when
  \<^verbatim>\<open>retrieve_forces\<close> holds. Everything after line 460 is a string literal, so the
  function ends there and returns \<^verbatim>\<open>None\<close>.
\<close>

definition forward ::
  "('p, 'g::real_vector) model \<Rightarrow> 'p list \<Rightarrow> real list \<Rightarrow> real list \<Rightarrow> bool \<Rightarrow> nat list option
     \<Rightarrow> real list list option \<Rightarrow> error + (real \<times> 'g) option" where
  "forward M positions lambda_sterics lambda_electrostatics retrieve_forces batch atom_features =
     (case evaluate M positions lambda_sterics lambda_electrostatics batch atom_features of
        Inl e \<Rightarrow> Inl e
      | Inr ts \<Rightarrow>
          (let total = t_sum (energies ts);
               gradients_f = grad total;
               forces = - gradients_f
           in if retrieve_forces then Inr (Some (val total, forces)) else Inr None))"

text \<open>
  The energies of line 442 with the GB term left in the autograd graph, the way the
  other evaluations of the file compute them (lines 172-179 and 746-751 call
  \<^verbatim>\<open>self.calculate_energies\<close> outside any \<^verbatim>\<open>no_grad\<close> block): their sum is the total
  energy as a differentiable function of the positions.
\<close>

definition energies_with_grad :: "('g::real_vector) atom_terms list \<Rightarrow> 'g tracked list" where
  "energies_with_grad ts =
     map (\<lambda>t. atom_energy (elec t) (l_electrostatics t) (sa t) (l_sterics t)) ts"

text \<open>
  Lines 730-735, the SA term in \<^verbatim>\<open>forward\<close> of the \<^verbatim>\<open>_run_multiple\<close> subclass:
  \<^verbatim>\<open>sasa = self.sigmoid(sa_scale) * (radius + 0.14)**2\<close>,
  \<^verbatim>\<open>sa_energies = 4.184 * gamma * sasa * 100\<close>, with \<^verbatim>\<open>gamma = 0.00542\<close> and
  \<^verbatim>\<open>offset = 0.0195141\<close>.
\<close>

definition sa_energies_run_multiple :: "real list \<Rightarrow> ('g::real_vector) tracked \<Rightarrow> 'g tracked" where
  "sa_energies_run_multiple x_row sa_scale =
     (let radius = x_row ! 1 + 0.0195141;
          sasa = t_scale ((radius + 0.14)\<^sup>2) (t_sigmoid sa_scale)
      in t_scale 100 (t_scale (4.184 * 0.00542) sasa))"

section \<open>Message-passing layers\<close>

text \<open>
  Modelled from the spec: the layers of \<^verbatim>\<open>MachineLearning/GNN_Layers.py\<close>, which is not
  among the sources. Sections 4.3 to 4.5 of the specification describe each of them as
  message passing: a message is computed per edge from the source state, the target
  state and the edge feature, the messages are aggregated at each target atom, and the
  result is combined with the atom's own state. \<open>incoming\<close> lists the sources and
  attributes of the edges into one node, in the order of the edge list.
\<close>

definition incoming :: "edge list \<Rightarrow> 'a list \<Rightarrow> nat \<Rightarrow> (nat \<times> 'a) list" where
  "incoming edge_index edge_attributes i =
     map (\<lambda>((s, t), a). (s, a)) (filter (\<lambda>((s, t), a). t = i) (zip edge_index edge_attributes))"

definition interaction_layer ::
  "('s \<Rightarrow> 's \<Rightarrow> 'a \<Rightarrow> 'm) \<Rightarrow> ('m list \<Rightarrow> 'm) \<Rightarrow> ('s \<Rightarrow> 'm \<Rightarrow> 'o)
     \<Rightarrow> edge list \<Rightarrow> 's list \<Rightarrow> 'a list \<Rightarrow> nat \<Rightarrow> 'o" where
  "interaction_layer message aggregate update edge_index x edge_attributes i =
     update (x ! i)
       (aggregate (map (\<lambda>(s, a). message (x ! s) (x ! i) a)
                       (incoming edge_index edge_attributes i)))"

section \<open>A configuration to evaluate\<close>

text \<open>
  A model instance on which the definitions can be run. Positions are numbers on a
  line, each carrying its derivative with respect to the coordinate that is
  differentiated, so that \<open>distancer\<close> is the distance with its derivative. The
  constants are those of \<^verbatim>\<open>__init__\<close> (lines 282-343); the two networks on lambda have
  zero weights, so that they return \<open>sigmoid 0\<close>; the layers are message-passing
  layers with simple rational messages: the Born term is the intrinsic radius plus the
  distances to the neighbours, the correction channel is 0, the SA channel is 2 plus
  the distances to the short-range neighbours, and the GB energy of an atom is its
  charge times its Born radius.
\<close>

definition example_model :: "(real tracked, real) model" where
  "example_model =
     \<lparr>fraction = 1/2, gnn_radius = 4/10, gbneck_radius = 13, max_num_neighbors = 32,
      gnn_params = None, gamma = 542/100000, offset = 195141/10000000,
      metric = (\<lambda>p q. \<bar>val p - val q\<bar>),
      distancer = (\<lambda>p q. \<lparr>val = \<bar>val p - val q\<bar>,
                             grad = sgn (val p - val q) * (grad p - grad q)\<rparr>),
      sterics_ff = (\<lambda>l. sigmoid 0),
      electrostatics_ff = (\<lambda>l. sigmoid 0),
      aggregate_information = (\<lambda>x es as.
        interaction_layer (\<lambda>xs xt a. a) t_sum
          (\<lambda>xt m. (t_add (t_const (xt ! 1)) m, t_const (xt ! 0))) es x as),
      interaction1 = (\<lambda>es h as. interaction_layer (\<lambda>hs ht a. a) t_sum (\<lambda>ht m. m # ht) es h as),
      interaction2 = (\<lambda>es h as.
        interaction_layer (\<lambda>hs ht a. a) t_sum (\<lambda>ht m. (t_const 0, t_add (t_const 2) m)) es h as),
      calculate_energies = (\<lambda>Bc es as.
        interaction_layer (\<lambda>bs bt a. a) t_sum (\<lambda>bt m. t_mul (snd bt) (fst bt)) es Bc as)\<rparr>"

text \<open>
  Two atoms of one molecule, 0.3 apart, with the second atom's coordinate the one that
  is differentiated; feature rows hold the charge and the intrinsic radius.
\<close>

definition example_positions :: "real tracked list" where
  "example_positions = [\<lparr>val = 0, grad = 0\<rparr>, \<lparr>val = 3/10, grad = 1\<rparr>]"

definition example_features :: "real list list" where
  "example_features = [[1, 15/100], [1, 12/100]]"

section \<open>The radial basis encoding\<close>

text \<open>
  \<^verbatim>\<open>torch.linspace(start, end, steps)\<close>: \<open>steps\<close> values from \<open>start\<close> to \<open>end\<close> at equal
  distances; a single value is \<open>start\<close>.
\<close>

definition linspace :: "real \<Rightarrow> real \<Rightarrow> nat \<Rightarrow> real list" where
  "linspace start stop steps =
     map (\<lambda>i. start + real i * ((stop - start) / real (steps - 1))) [0..<steps]"

text \<open>
  \<^verbatim>\<open>GNN_GBNeck.get_edge_features\<close>, lines 77-92, for one distance (the source subtracts
  the vector of centers from every distance of the tensor). The defaults are
  \<^verbatim>\<open>alpha=2, max_range=0.4, min_range=0.1, num_kernels=32\<close>. \<open>margin\<close> is the local
  \<^verbatim>\<open>m\<close> of line 83, \<open>centers\<close> the tensor of lines 84-89. An entry is a number or, as
  \<open>None\<close>, not a number: for \<open>m = 0\<close> the floating-point quotient \<^verbatim>\<open>k / m\<close> of line 92 is
  infinite when \<open>k\<close> is not 0, so that the power is minus infinity and the maximum
  with 0 is 0, and it is not a number when \<open>k\<close> is 0, which \<^verbatim>\<open>torch.pow\<close> and
  \<^verbatim>\<open>torch.maximum\<close> hand on.
\<close>

definition margin :: "real \<Rightarrow> real \<Rightarrow> real \<Rightarrow> nat \<Rightarrow> real" where
  "margin alpha max_range min_range num_kernels =
     alpha * (max_range - min_range) / (real num_kernels + 1)"

definition centers :: "real \<Rightarrow> real \<Rightarrow> real \<Rightarrow> nat \<Rightarrow> real list" where
  "centers alpha max_range min_range num_kernels =
     (let m = margin alpha max_range min_range num_kernels;
          lower_bound = min_range + m;
          upper_bound = max_range - m
      in linspace lower_bound upper_bound num_kernels)"

definition get_edge_features :: "real \<Rightarrow> real \<Rightarrow> real \<Rightarrow> real \<Rightarrow> nat \<Rightarrow> real option list" where
  "get_edge_features distances alpha max_range min_range num_kernels =
     (let m = margin alpha max_range min_range num_kernels
      in map (\<lambda>c. let k = distances - c
                  in if m \<noteq> 0 then Some (max 0 ((1 - (k / m)\<^sup>2) ^ 3))
                     else if k = 0 then None
                     else Some 0)
             (centers alpha max_range min_range num_kernels))"

section \<open>The datasets\<close>

text \<open>
  \<^verbatim>\<open>datasets/bigbind_solv.py\<close>. A group of the HDF5 file holds the arrays of one
  molecule: per-atom charges, atomic numbers and GB parameters, and per frame of the
  simulation the positions, the solvent forces, the two lambdas and their derivatives.
\<close>

type_synonym vec3 = "real \<times> real \<times> real"

record h5_group =
  ds_charges :: "real list"
  ds_positions :: "vec3 list list"
  ds_atomic_numbers :: "int list"
  ds_solv_forces :: "vec3 list list"
  ds_lambda_sterics :: "real list"
  ds_lambda_electrostatics :: "real list"
  ds_sterics_derivatives :: "real list"
  ds_electrostatics_derivatives :: "real list"
  ds_gnn_params :: "real list list"

text \<open>
  Indexing a Python list or an array with an integer: a negative index counts from the
  end, an index out of range raises \<^verbatim>\<open>IndexError\<close>.
\<close>

definition getitem :: "'a list \<Rightarrow> int \<Rightarrow> error + 'a" where
  "getitem xs i =
     (if 0 \<le> i \<and> i < int (length xs) then Inr (xs ! nat i)
      else if i < 0 \<and> - int (length xs) \<le> i then Inr (xs ! nat (int (length xs) + i))
      else Inl (IndexError ''index out of range''))"

text \<open>
  The library routines that \<^verbatim>\<open>MAFBigBind.__getitem__\<close> calls on the arrays:
  \<^verbatim>\<open>np.mean(all_forces, axis=0)\<close>, \<^verbatim>\<open>scipy.stats.trim_mean\<close>, and the per-particle
  parameters that OpenMM's \<^verbatim>\<open>GBSAGBn2Force\<close> derives from the charges and GB parameters
  (\<^verbatim>\<open>addParticles\<close>, \<^verbatim>\<open>finalize\<close>, \<^verbatim>\<open>getParticleParameters\<close>).
\<close>

record numerics =
  np_mean :: "vec3 list list \<Rightarrow> vec3 list"
  trim_mean :: "real list \<Rightarrow> real \<Rightarrow> real"
  particle_parameters :: "real list list \<Rightarrow> real list list"

text \<open>The \<^verbatim>\<open>Data\<close> object that \<^verbatim>\<open>MAFBigBind.__getitem__\<close> returns.\<close>

record data =
  d_charges :: "real list"
  d_atom_features :: "real list list"
  d_pos :: "vec3 list"
  d_atomic_numbers :: "int list"
  d_forces :: "vec3 list"
  d_lambda_sterics :: real
  d_lambda_electrostatics :: real
  d_sterics_derivative :: real
  d_electrostatics_derivative :: real

text \<open>
  \<^verbatim>\<open>MAFBigBind\<close>: the groups of the file in the order of \<^verbatim>\<open>self.keys\<close>, and \<^verbatim>\<open>self.trim\<close>.
\<close>

record MAFBigBind =
  mb_groups :: "h5_group list"
  mb_trim :: real

definition MAFBigBind_len :: "MAFBigBind \<Rightarrow> nat" where
  "MAFBigBind_len ds = length (mb_groups ds)"

text \<open>
  \<^verbatim>\<open>MAFBigBind.__getitem__\<close>, lines 26-77. \<^verbatim>\<open>np.concatenate\<close> along the last axis
  appends the columns row by row.
\<close>

definition MAFBigBind_getitem :: "numerics \<Rightarrow> MAFBigBind \<Rightarrow> int \<Rightarrow> error + data" where
  "MAFBigBind_getitem lib ds index =
     (if index \<ge> int (MAFBigBind_len ds) then Inl (IndexError ''Index out of bounds'')
      else
        case getitem (mb_groups ds) index of
          Inl e \<Rightarrow> Inl e
        | Inr grp \<Rightarrow>
            (let q = ds_charges grp in
             case getitem (ds_positions grp) 0 of
               Inl e \<Rightarrow> Inl e
             | Inr positions \<Rightarrow>
                 if 3 * length positions = 0
                 then Inl (IndexError ''Empty positions encountered'')
                 else
                   (let atomic_numbers = ds_atomic_numbers grp;
                        all_forces = ds_solv_forces grp;
                        forces = np_mean lib all_forces
                    in case getitem (ds_lambda_sterics grp) 0 of
                         Inl e \<Rightarrow> Inl e
                       | Inr lam_sterics \<Rightarrow>
                           (case getitem (ds_lambda_electrostatics grp) 0 of
                              Inl e \<Rightarrow> Inl e
                            | Inr lam_electrostatics \<Rightarrow>
                                (let sterics_derivative =
                                       trim_mean lib (ds_sterics_derivatives grp) (mb_trim ds);
                                     electrostatics_derivative =
                                       trim_mean lib (ds_electrostatics_derivatives grp)
                                         (mb_trim ds);
                                     gbn2_params = ds_gnn_params grp;
                                     pre_params = map (\<lambda>(c, ps). c # ps) (zip q gbn2_params);
                                     gnn_data = particle_parameters lib pre_params;
                                     gbn_gnn_data =
                                       map (\<lambda>row. row @ [lam_electrostatics, lam_sterics])
                                           gnn_data
                                 in if length q \<noteq> length gbn2_params
                                       \<or> length gnn_data \<noteq> length positions
                                    then Inl ValueError
                                    else Inr \<lparr>d_charges = q,
                                              d_atom_features = gbn_gnn_data,
                                              d_pos = positions,
                                              d_atomic_numbers = atomic_numbers,
                                              d_forces = forces,
                                              d_lambda_sterics = lam_sterics,
                                              d_lambda_electrostatics = lam_electrostatics,
                                              d_sterics_derivative = sterics_derivative,
                                              d_electrostatics_derivative =
                                                electrostatics_derivative\<rparr>)))))"

text \<open>The \<^verbatim>\<open>MDData\<close> object that \<^verbatim>\<open>BigBindSolvDataset.__getitem__\<close> returns.\<close>

record mddata =
  md_charges :: "real list"
  md_positions :: "vec3 list"
  md_atomic_numbers :: "int list"
  md_forces :: "vec3 list"
  md_lambda_sterics :: real
  md_lambda_electrostatics :: real
  md_sterics_derivative :: real
  md_electrostatics_derivative :: real

text \<open>
  \<^verbatim>\<open>BigBindSolvDataset\<close>: the groups in the order of \<^verbatim>\<open>self.keys\<close>, and
  \<^verbatim>\<open>self.frame_index\<close>, which may be \<^verbatim>\<open>None\<close>.
\<close>

record BigBindSolvDataset =
  bs_groups :: "h5_group list"
  bs_frame_index :: "nat option"

text \<open>Lines 92-93: \<^verbatim>\<open>self.length * self.frame_index\<close>.\<close>

definition BigBindSolvDataset_len :: "BigBindSolvDataset \<Rightarrow> error + nat" where
  "BigBindSolvDataset_len ds =
     (case bs_frame_index ds of
        None \<Rightarrow> Inl TypeError
      | Some f \<Rightarrow> Inr (length (bs_groups ds) * f))"

text \<open>
  Lines 104-109: the frame. \<^verbatim>\<open>torch.randint(0, n, (1, ))\<close> draws a number below \<open>n\<close>
  and raises \<^verbatim>\<open>RuntimeError\<close> for \<open>n = 0\<close>; the draw is the argument \<open>rnd\<close>.
\<close>

definition choose_frame :: "nat \<Rightarrow> BigBindSolvDataset \<Rightarrow> nat \<Rightarrow> int \<Rightarrow> error + int" where
  "choose_frame rnd ds n_frames index =
     (case bs_frame_index ds of
        None \<Rightarrow> if n_frames = 0 then Inl RuntimeError else Inr (int (rnd mod n_frames))
      | Some f \<Rightarrow>
          if n_frames < f
          then (if n_frames = 0 then Inl RuntimeError else Inr (int (rnd mod n_frames)))
          else if f = 0 then Inl ZeroDivisionError
          else Inr (index mod int f))"

text \<open>\<^verbatim>\<open>BigBindSolvDataset.__getitem__\<close>, lines 95-140.\<close>

definition BigBindSolvDataset_getitem ::
  "nat \<Rightarrow> BigBindSolvDataset \<Rightarrow> int \<Rightarrow> error + mddata" where
  "BigBindSolvDataset_getitem rnd ds index =
     (if length (bs_groups ds) = 0 then Inl ZeroDivisionError
      else
        let index_mod = index mod int (length (bs_groups ds)) in
        case getitem (bs_groups ds) index_mod of
          Inl e \<Rightarrow> Inl e
        | Inr grp \<Rightarrow>
            (let q = ds_charges grp;
                 all_positions = ds_positions grp;
                 atomic_numbers = ds_atomic_numbers grp;
                 all_forces = ds_solv_forces grp
             in case choose_frame rnd ds (length all_positions) index of
                  Inl e \<Rightarrow> Inl e
                | Inr frame_idx \<Rightarrow>
                    (case getitem all_positions frame_idx of
                       Inl e \<Rightarrow> Inl e
                     | Inr positions \<Rightarrow>
                    (case getitem all_forces frame_idx of
                       Inl e \<Rightarrow> Inl e
                     | Inr forces \<Rightarrow>
                    (case getitem (ds_lambda_sterics grp) frame_idx of
                       Inl e \<Rightarrow> Inl e
                     | Inr lam_sterics \<Rightarrow>
                    (case getitem (ds_lambda_electrostatics grp) frame_idx of
                       Inl e \<Rightarrow> Inl e
                     | Inr lam_electrostatics \<Rightarrow>
                    (case getitem (ds_sterics_derivatives grp) frame_idx of
                       Inl e \<Rightarrow> Inl e
                     | Inr sterics_derivative \<Rightarrow>
                    (case getitem (ds_electrostatics_derivatives grp) frame_idx of
                       Inl e \<Rightarrow> Inl e
                     | Inr electrostatics_derivative \<Rightarrow>
                         Inr \<lparr>md_charges = q,
                              md_positions = positions,
                              md_atomic_numbers = atomic_numbers,
                              md_forces = forces,
                              md_lambda_sterics = lam_sterics,
                              md_lambda_electrostatics = lam_electrostatics,
                              md_sterics_derivative = sterics_derivative,
                              md_electrostatics_derivative =
                                electrostatics_derivative\<rparr>))))))))"

text \<open>
  A file with one molecule whose single stored frame has no atoms, read as a
  \<^verbatim>\<open>BigBindSolvDataset\<close> with \<^verbatim>\<open>frame_index = 1\<close>.
\<close>

definition empty_frame_group :: h5_group where
  "empty_frame_group =
     \<lparr>ds_charges = [], ds_positions = [[]], ds_atomic_numbers = [], ds_solv_forces = [[]],
      ds_lambda_sterics = [1], ds_lambda_electrostatics = [1],
      ds_sterics_derivatives = [0], ds_electrostatics_derivatives = [0],
      ds_gnn_params = []\<rparr>"

definition empty_frame_dataset :: BigBindSolvDataset where
  "empty_frame_dataset = \<lparr>bs_groups = [empty_frame_group], bs_frame_index = Some 1\<rparr>"

section \<open>The edge list of the replicated model\<close>

text \<open>
  \<^verbatim>\<open>build_edge_idx\<close> of the \<^verbatim>\<open>_run_multiple\<close> subclass, lines 785-810. The
  \<^verbatim>\<open>edge_index\<close> tensor has two rows; \<^verbatim>\<open>edge_index[0, k] = s\<close> followed by
  \<^verbatim>\<open>edge_index[1, k] = t\<close> sets column \<open>k\<close>, and an index outside the tensor raises
  \<^verbatim>\<open>IndexError\<close>. \<open>num_nodes\<close> is a length and \<open>num_reps\<close> a count, both natural
  numbers; for \<open>num_nodes = 0\<close> the product \<^verbatim>\<open>num_nodes * (num_nodes - 1)\<close> is 0 in the
  source as it is here.
\<close>

definition set_entry :: "nat list \<Rightarrow> nat \<Rightarrow> nat \<Rightarrow> error + nat list" where
  "set_entry row k v =
     (if k < length row then Inr (row[k := v]) else Inl (IndexError ''index out of range''))"

definition set_column :: "nat list \<times> nat list \<Rightarrow> nat \<Rightarrow> nat \<Rightarrow> nat \<Rightarrow> error + nat list \<times> nat list" where
  "set_column edge_index k s t =
     (case set_entry (fst edge_index) k s of
        Inl e \<Rightarrow> Inl e
      | Inr row0 \<Rightarrow>
          (case set_entry (snd edge_index) k t of
             Inl e \<Rightarrow> Inl e
           | Inr row1 \<Rightarrow> Inr (row0, row1)))"

text \<open>A \<^verbatim>\<open>for\<close> loop over a range, stopping at the first exception.\<close>

fun for_each :: "'i list \<Rightarrow> ('i \<Rightarrow> 's \<Rightarrow> error + 's) \<Rightarrow> 's \<Rightarrow> error + 's" where
  "for_each [] body s = Inr s"
| "for_each (i # is) body s =
     (case body i s of Inl e \<Rightarrow> Inl e | Inr s' \<Rightarrow> for_each is body s')"

definition build_edge_idx :: "nat \<Rightarrow> nat \<Rightarrow> error + nat list \<times> nat list" where
  "build_edge_idx num_nodes num_reps =
     (let elements_per_rep = num_nodes * (num_nodes - 1);
          edge_index = (replicate (num_reps * elements_per_rep) 0,
                        replicate (num_reps * elements_per_rep) 0)
      in for_each [0..<num_reps] (\<lambda>rep.
           for_each [0..<num_nodes] (\<lambda>node.
             for_each [0..<num_nodes] (\<lambda>con edge_index.
               if con < node
               then set_column edge_index
                      (rep * elements_per_rep + node * (num_nodes - 1) + con)
                      (rep * num_nodes + node) (rep * num_nodes + con)
               else if con > node
               then set_column edge_index
                      (rep * elements_per_rep + node * (num_nodes - 1) + con - 1)
                      (rep * num_nodes + node) (rep * num_nodes + con)
               else Inr edge_index)))
         edge_index)"

text \<open>
  \<^verbatim>\<open>tensor[a:b] = v\<close> on a vector: the entries from \<open>a\<close> up to \<open>b\<close>, as far as they
  exist, are set to \<open>v\<close>.
\<close>

definition set_slice :: "nat list \<Rightarrow> nat \<Rightarrow> nat \<Rightarrow> nat \<Rightarrow> nat list" where
  "set_slice xs a b v = map (\<lambda>k. if a \<le> k \<and> k < b then v else xs ! k) [0..<length xs]"

text \<open>
  \<^verbatim>\<open>set_num_reps\<close>, lines 682-687, with \<open>num_nodes\<close> for \<^verbatim>\<open>len(self._gbparameters)\<close>:
  the batch ids start as zeros and the loop writes \<open>i\<close> into the slice of replica \<open>i\<close>.
\<close>

definition replica_batch :: "nat \<Rightarrow> nat \<Rightarrow> nat list" where
  "replica_batch num_nodes num_reps =
     fold (\<lambda>i batch. set_slice batch (i * num_nodes) ((i + 1) * num_nodes) i)
          [0..<num_reps] (replicate (num_reps * num_nodes) 0)"

text \<open>
  The ordered pairs of distinct nodes within each replica, replica by replica, source
  by source: what the edge list is to enumerate.
\<close>

definition replica_pairs :: "nat \<Rightarrow> nat \<Rightarrow> edge list" where
  "replica_pairs num_nodes num_reps =
     concat (map (\<lambda>rep.
       concat (map (\<lambda>node.
         map (\<lambda>con. (rep * num_nodes + node, rep * num_nodes + con))
             (filter (\<lambda>con. con \<noteq> node) [0..<num_nodes]))
         [0..<num_nodes]))
       [0..<num_reps])"

section \<open>Properties of the tracked arithmetic\<close>

lemma sigmoid_pos: "0 < sigmoid x"
  by (simp add: sigmoid_def add_pos_pos)

lemma sigmoid_less_one: "sigmoid x < 1"
  by (simp add: sigmoid_def add_pos_pos)

lemma val_t_const [simp]: "val (t_const r) = r"
  by (simp add: t_const_def)

lemma val_t_add [simp]: "val (t_add a b) = val a + val b"
  by (simp add: t_add_def)

lemma val_t_mul [simp]: "val (t_mul a b) = val a * val b"
  by (simp add: t_mul_def)

lemma val_t_scale [simp]: "val (t_scale r a) = r * val a"
  by (simp add: t_scale_def)

lemma val_t_sigmoid [simp]: "val (t_sigmoid a) = sigmoid (val a)"
  by (simp add: t_sigmoid_def)

lemma val_no_grad [simp]: "val (no_grad a) = val a"
  by (simp add: no_grad_def)

lemma grad_no_grad [simp]: "grad (no_grad a) = 0"
  by (simp add: no_grad_def)

lemma grad_t_const [simp]: "grad (t_const r) = 0"
  by (simp add: t_const_def)

lemma grad_t_add [simp]: "grad (t_add a b) = grad a + grad b"
  by (simp add: t_add_def)

lemma grad_t_mul [simp]: "grad (t_mul a b) = val a *\<^sub>R grad b + val b *\<^sub>R grad a"
  by (simp add: t_mul_def)

lemma grad_t_scale [simp]: "grad (t_scale r a) = r *\<^sub>R grad a"
  by (simp add: t_scale_def)

lemma val_t_sum: "val (t_sum xs) = sum_list (map val xs)"
  by (induction xs) simp_all

lemma grad_t_sum: "grad (t_sum xs) = sum_list (map grad xs)"
  by (induction xs) simp_all

section \<open>The bounded correction of the Born radius\<close>

lemma val_corrected_born:
  "val (corrected_born fr B c) =
     val B * (fr + sigmoid (val c) * (1 - fr) * 2)"
  by (simp add: corrected_born_def algebra_simps)

lemma sigmoid_zero: "sigmoid 0 = 1/2"
  by (simp add: sigmoid_def)

text \<open>
  C3 (amended). For a raw aggregated Born term \<open>B \<ge> 0\<close>, any output \<open>c_scale\<close> of the
  correction network and a correction fraction that is at most 1 (the default is 0.5),
  the corrected Born radius \<open>B * (fraction + sigmoid c_scale * (1 - fraction) * 2)\<close> is
  at least \<open>fraction * B\<close> and at most \<open>(1 + (1 - fraction)) * B\<close>. The constructor takes
  any number as fraction; for a fraction above 1 the bounds of the claim fail.
\<close>

theorem corrected_born_bounds:
  assumes "0 \<le> val B" and "fr \<le> 1"
  shows "fr * val B \<le> val (corrected_born fr B c_scale)
       \<and> val (corrected_born fr B c_scale) \<le> (1 + (1 - fr)) * val B"
proof -
  let ?s = "sigmoid (val c_scale)"
  let ?k = "fr + ?s * (1 - fr) * 2"
  have s0: "0 \<le> ?s" and s1: "?s \<le> 1"
    using sigmoid_pos [of "val c_scale"] sigmoid_less_one [of "val c_scale"] by simp_all
  have f: "0 \<le> 1 - fr" using assms(2) by simp
  have lo: "fr \<le> ?k"
    using s0 f by simp
  have "?s * (1 - fr) \<le> 1 * (1 - fr)"
    using s1 f by (rule mult_right_mono)
  then have hi: "?k \<le> 1 + (1 - fr)" by simp
  have "fr * val B \<le> ?k * val B"
    using lo assms(1) by (rule mult_right_mono)
  moreover have "?k * val B \<le> (1 + (1 - fr)) * val B"
    using hi assms(1) by (rule mult_right_mono)
  ultimately show ?thesis
    by (simp add: val_corrected_born mult.commute)
qed

theorem corrected_born_bounds_witness:
  "(0::real) \<le> val (\<lparr>val = 3, grad = 1\<rparr> :: real tracked) \<and> (1/4 :: real) \<le> 1
   \<and> (1/4) * val (\<lparr>val = 3, grad = 1\<rparr> :: real tracked)
       \<le> val (corrected_born (1/4) \<lparr>val = 3, grad = 1\<rparr> (\<lparr>val = 2, grad = 1\<rparr> :: real tracked))
   \<and> val (corrected_born (1/4) \<lparr>val = 3, grad = 1\<rparr> (\<lparr>val = 2, grad = 1\<rparr> :: real tracked))
       \<le> (1 + (1 - 1/4)) * val (\<lparr>val = 3, grad = 1\<rparr> :: real tracked)"
  using corrected_born_bounds [of "\<lparr>val = 3, grad = 1\<rparr> :: real tracked" "1/4" "\<lparr>val = 2, grad = 1\<rparr>"]
  by simp

text \<open>
  The claim as stated, for any fraction, fails at \<open>fraction = 3/2\<close>, \<open>B = 1\<close>,
  \<open>c_scale = 0\<close>: the corrected Born radius is \<open>1 * (3/2 + 1/2 * (1 - 3/2) * 2) = 1\<close>,
  below \<open>fraction * B = 3/2\<close> and above \<open>(1 + (1 - fraction)) * B = 1/2\<close>.
\<close>

theorem corrected_born_bounds_counterexample:
  "val (corrected_born (3/2) (\<lparr>val = 1, grad = 0\<rparr> :: real tracked) \<lparr>val = 0, grad = 0\<rparr>) = 1
   \<and> \<not> ((3/2) * val (\<lparr>val = 1, grad = 0\<rparr> :: real tracked)
          \<le> val (corrected_born (3/2) (\<lparr>val = 1, grad = 0\<rparr> :: real tracked) \<lparr>val = 0, grad = 0\<rparr>))
   \<and> \<not> (val (corrected_born (3/2) (\<lparr>val = 1, grad = 0\<rparr> :: real tracked) \<lparr>val = 0, grad = 0\<rparr>)
          \<le> (1 + (1 - 3/2)) * val (\<lparr>val = 1, grad = 0\<rparr> :: real tracked))"
  by (simp add: val_corrected_born sigmoid_zero)

section \<open>The forward evaluation: what it returns\<close>

lemma index_select_Inr:
  "index_select scale batch = Inr l \<Longrightarrow>
     l = map (\<lambda>b. scale ! b) batch \<and> list_all (\<lambda>b. b < length scale) batch"
  by (auto simp: index_select_def split: if_splits)

lemma lambda_scale_zero:
  "list_all (\<lambda>l. l = 0) ls \<Longrightarrow> b < length ls \<Longrightarrow> lambda_scale ff ls ! b = 0"
  by (simp add: lambda_scale_def list_all_length)

lemma length_lambda_scale [simp]: "length (lambda_scale ff ls) = length ls"
  by (simp add: lambda_scale_def)

lemma message_passing_lambdas:
  assumes "length l_e = length x" and "length l_s = length x"
  shows "map l_electrostatics (message_passing M x ei ea gi ga l_e l_s) = l_e"
    and "map l_sterics (message_passing M x ei ea gi ga l_e l_s) = l_s"
proof -
  have "map ((!) l_e) [0..<length x] = l_e" "map ((!) l_s) [0..<length x] = l_s"
    using assms by (metis map_nth)+
  then show "map l_electrostatics (message_passing M x ei ea gi ga l_e l_s) = l_e"
    and "map l_sterics (message_passing M x ei ea gi ga l_e l_s) = l_s"
    by (simp_all add: message_passing_def Let_def o_def)
qed

lemma evaluate_Inr:
  assumes "evaluate M positions lambda_sterics lambda_electrostatics batch atom_features = Inr ts"
  obtains b x l_e l_s ei ea gi ga where
    "default_batch M batch = Inr b"
    "node_features M positions lambda_sterics lambda_electrostatics atom_features = Inr x"
    "index_select (lambda_scale (electrostatics_ff M) lambda_electrostatics) b = Inr l_e"
    "index_select (lambda_scale (sterics_ff M) lambda_sterics) b = Inr l_s"
    "list_all (\<lambda>row. 1 < length row) x"
    "length x = length b"
    "ts = message_passing M x ei ea gi ga l_e l_s"
  using assms by (auto simp: evaluate_def Let_def split: if_splits sum.splits)

lemma evaluate_zero_lambdas:
  assumes "list_all (\<lambda>l. l = 0) lambda_sterics"
    and "list_all (\<lambda>l. l = 0) lambda_electrostatics"
    and "evaluate M positions lambda_sterics lambda_electrostatics batch atom_features = Inr ts"
  shows "list_all (\<lambda>t. l_electrostatics t = 0 \<and> l_sterics t = 0) ts"
proof -
  from assms(3) obtain b x l_e l_s ei ea gi ga where
    le: "index_select (lambda_scale (electrostatics_ff M) lambda_electrostatics) b = Inr l_e"
    and ls: "index_select (lambda_scale (sterics_ff M) lambda_sterics) b = Inr l_s"
    and len: "length x = length b"
    and ts: "ts = message_passing M x ei ea gi ga l_e l_s"
    by (rule evaluate_Inr)
  from index_select_Inr [OF le] assms(2)
  have le0: "list_all (\<lambda>v. v = 0) l_e" and lle: "length l_e = length x"
    by (auto simp: list_all_length lambda_scale_zero len)
  from index_select_Inr [OF ls] assms(1)
  have ls0: "list_all (\<lambda>v. v = 0) l_s" and lls: "length l_s = length x"
    by (auto simp: list_all_length lambda_scale_zero len)
  have m: "map l_electrostatics ts = l_e" "map l_sterics ts = l_s"
    using message_passing_lambdas [OF lle lls] ts by simp_all
  have "list_all (\<lambda>v. v = 0) (map l_electrostatics ts)"
    "list_all (\<lambda>v. v = 0) (map l_sterics ts)"
    using le0 ls0 m by simp_all
  then show ?thesis
    by (simp add: list_all_iff)
qed

lemma val_energies_zero:
  "list_all (\<lambda>t. l_electrostatics t = 0 \<and> l_sterics t = 0) ts \<Longrightarrow> val (t_sum (energies ts)) = 0"
  by (induction ts) (simp_all add: energies_def atom_energy_def)

lemma forward_Some:
  assumes "forward M positions lambda_sterics lambda_electrostatics rf batch atom_features
             = Inr (Some (E, F))"
  obtains ts where
    "evaluate M positions lambda_sterics lambda_electrostatics batch atom_features = Inr ts"
    "E = val (t_sum (energies ts))" "F = - grad (t_sum (energies ts))" "rf"
  using assms by (auto simp: forward_def Let_def split: sum.splits if_splits)

subsection \<open>Evaluating the example\<close>

lemma upt_2: "[0..<2] = [0, Suc 0]"
  by (simp add: numeral_2_eq_2)

lemmas evaluate_simps =
  evaluate_def example_model_def example_positions_def example_features_def
  forward_edge_index_def forward_gnn_edge_index_def radius_graph_def neighbours_def same_batch_def upt_2 incoming_def interaction_layer_def
  edge_distances_def lambda_scale_def default_batch_def node_features_def index_select_def
  message_passing_def sa_energies_def corrected_born_def Let_def
  t_const_def t_mul_def t_add_def t_scale_def t_sigmoid_def sigmoid_zero

lemmas forward_simps =
  forward_def energies_def atom_energy_def Let_def t_add_def t_mul_def t_const_def no_grad_def
  power2_eq_square

lemma example_evaluate:
  "evaluate example_model example_positions [1] [1] (Some [0, 0]) (Some example_features) =
     Inr [\<lparr>elec = \<lparr>val = 45/100, grad = 1\<rparr>,
           sa = \<lparr>val = 4.184 * (542/100000) * (23/10) * (15/100 + 195141/10000000 + 14/100)\<^sup>2 * 100,
                 grad = 4.184 * (542/100000) * (15/100 + 195141/10000000 + 14/100)\<^sup>2 * 100\<rparr>,
           l_electrostatics = 1/2, l_sterics = 1/2\<rparr>,
          \<lparr>elec = \<lparr>val = 42/100, grad = 1\<rparr>,
           sa = \<lparr>val = 4.184 * (542/100000) * (23/10) * (12/100 + 195141/10000000 + 14/100)\<^sup>2 * 100,
                 grad = 4.184 * (542/100000) * (12/100 + 195141/10000000 + 14/100)\<^sup>2 * 100\<rparr>,
           l_electrostatics = 1/2, l_sterics = 1/2\<rparr>]"
  by (simp add: evaluate_simps)

lemma example_forward:
  "forward example_model example_positions [1] [1] True (Some [0, 0]) (Some example_features) =
     Inr (Some (87/200 + (1/2) * (4.184 * (542/100000) * (23/10) * 100)
                  * ((15/100 + 195141/10000000 + 14/100)\<^sup>2 + (12/100 + 195141/10000000 + 14/100)\<^sup>2),
                - (1/2) * (4.184 * (542/100000) * 100)
                  * ((15/100 + 195141/10000000 + 14/100)\<^sup>2 + (12/100 + 195141/10000000 + 14/100)\<^sup>2)))"
  by (simp add: example_evaluate forward_simps)

lemma example_evaluate_zero_lambda:
  "\<exists>ts. evaluate example_model example_positions [0] [0] (Some [0, 0]) (Some example_features) = Inr ts"
  by (simp add: evaluate_simps)

subsection \<open>The gradient that the forces are taken from\<close>

lemma val_energies: "val (t_sum (energies ts)) = val (t_sum (energies_with_grad ts))"
  by (induction ts) (simp_all add: energies_def energies_with_grad_def atom_energy_def)

lemma grad_energies:
  "grad (t_sum (energies ts)) = (\<Sum>t\<leftarrow>ts. l_sterics t *\<^sub>R grad (sa t))"
  by (induction ts) (simp_all add: energies_def atom_energy_def)

lemma grad_energies_with_grad:
  "grad (t_sum (energies_with_grad ts)) =
     (\<Sum>t\<leftarrow>ts. l_electrostatics t *\<^sub>R grad (elec t)) + (\<Sum>t\<leftarrow>ts. l_sterics t *\<^sub>R grad (sa t))"
  by (induction ts) (simp_all add: energies_with_grad_def atom_energy_def)

lemma forward_forces:
  assumes "evaluate M positions lambda_sterics lambda_electrostatics batch atom_features = Inr ts"
  shows "forward M positions lambda_sterics lambda_electrostatics True batch atom_features =
           Inr (Some (val (t_sum (energies_with_grad ts)),
                      - grad (t_sum (energies_with_grad ts))
                      + (\<Sum>t\<leftarrow>ts. l_electrostatics t *\<^sub>R grad (elec t))))"
  using assms by (simp add: forward_def Let_def val_energies grad_energies grad_energies_with_grad)

text \<open>
  C1 (fails on the code). The claim is that the returned forces are the negated
  gradient of the total energy through the whole pipeline, the GB energy included. On
  the two-atom example the evaluation returns forces that differ from that negated
  gradient by exactly the GB contribution, 1: the GB energies enter the sum as
  constants.
\<close>

theorem forces_omit_gb_gradient:
  "forward example_model example_positions [1] [1] True (Some [0, 0]) (Some example_features) =
     Inr (Some (87/200 + (1/2) * (4.184 * (542/100000) * (23/10) * 100)
                  * ((15/100 + 195141/10000000 + 14/100)\<^sup>2 + (12/100 + 195141/10000000 + 14/100)\<^sup>2),
                - (1/2) * (4.184 * (542/100000) * 100)
                  * ((15/100 + 195141/10000000 + 14/100)\<^sup>2 + (12/100 + 195141/10000000 + 14/100)\<^sup>2)))
   \<and> (case evaluate example_model example_positions [1] [1] (Some [0, 0]) (Some example_features) of
        Inl e \<Rightarrow> False
      | Inr ts \<Rightarrow>
          - grad (t_sum (energies_with_grad ts)) =
            - (1/2) * (4.184 * (542/100000) * 100)
              * ((15/100 + 195141/10000000 + 14/100)\<^sup>2 + (12/100 + 195141/10000000 + 14/100)\<^sup>2)
            - 1)"
  by (simp add: example_forward example_evaluate energies_with_grad_def forward_simps)

text \<open>
  C2 (fails on the code). The claim is that the SA-scale channel goes through a sigmoid
  before it weights the surface area. On the example the channel is 2.3 for both atoms,
  and the SA energies of \<^verbatim>\<open>forward\<close> are \<open>4.184 * gamma * 2.3 * (radius + 0.14)\<^sup>2 * 100\<close>:
  the weight is the raw channel, not in (0, 1); the \<^verbatim>\<open>_run_multiple\<close> subclass weights
  with \<open>sigmoid 2.3\<close>.
\<close>

theorem sa_scale_not_squashed:
  "(case evaluate example_model example_positions [1] [1] (Some [0, 0]) (Some example_features) of
      Inl e \<Rightarrow> False
    | Inr ts \<Rightarrow>
        map (\<lambda>t. val (sa t)) ts =
          [4.184 * (542/100000) * (23/10) * ((15/100 + 195141/10000000) + 14/100)\<^sup>2 * 100,
           4.184 * (542/100000) * (23/10) * ((12/100 + 195141/10000000) + 14/100)\<^sup>2 * 100])
   \<and> \<not> ((23/10 :: real) < 1)
   \<and> val (sa_energies_run_multiple [1, 15/100] (\<lparr>val = 23/10, grad = 1\<rparr> :: real tracked)) =
       4.184 * (542/100000) * (sigmoid (23/10) * ((15/100 + 195141/10000000) + 14/100)\<^sup>2) * 100"
  by (simp add: example_evaluate sa_energies_run_multiple_def Let_def)

lemma length_message_passing [simp]:
  "length (message_passing M x ei ea gi ga l_e l_s) = length x"
  by (simp add: message_passing_def Let_def)

lemma nth_message_passing_lambdas:
  "i < length x \<Longrightarrow>
     l_electrostatics (message_passing M x ei ea gi ga l_e l_s ! i) = l_e ! i
     \<and> l_sterics (message_passing M x ei ea gi ga l_e l_s ! i) = l_s ! i"
  by (simp add: message_passing_def Let_def)

lemma nth_lambda_scale: "b < length ls \<Longrightarrow> lambda_scale ff ls ! b = ff (ls ! b) * ls ! b"
  by (simp add: lambda_scale_def)

lemma val_nth_energies:
  "i < length ts \<Longrightarrow>
     val (energies ts ! i) =
       val (elec (ts ! i)) * l_electrostatics (ts ! i) + val (sa (ts ! i)) * l_sterics (ts ! i)"
  by (simp add: energies_def atom_energy_def)

text \<open>
  C4. Whenever the forward evaluation returns an energy, the scale of every atom is
  the output of the feed-forward network on the lambda of the atom's molecule times
  that lambda, the energy of every atom is
  \<open>elec_energies * electrostatics_scale + sa_energies * sterics_scale\<close>, the returned
  energy is the sum of the atoms' energies, and it is 0 when every \<open>lambda_sterics\<close> and
  every \<open>lambda_electrostatics\<close> is 0.
\<close>

theorem zero_lambda_vanishing:
  assumes "forward M positions lambda_sterics lambda_electrostatics retrieve_forces batch
             atom_features = Inr (Some (E, F))"
  shows "\<exists>ts b.
      evaluate M positions lambda_sterics lambda_electrostatics batch atom_features = Inr ts
    \<and> default_batch M batch = Inr b \<and> length ts = length b
    \<and> (\<forall>i<length ts.
          b ! i < length lambda_electrostatics \<and> b ! i < length lambda_sterics
        \<and> l_electrostatics (ts ! i) =
            electrostatics_ff M (lambda_electrostatics ! (b ! i)) * lambda_electrostatics ! (b ! i)
        \<and> l_sterics (ts ! i) =
            sterics_ff M (lambda_sterics ! (b ! i)) * lambda_sterics ! (b ! i)
        \<and> val (energies ts ! i) =
            val (elec (ts ! i)) * l_electrostatics (ts ! i) + val (sa (ts ! i)) * l_sterics (ts ! i))
    \<and> E = (\<Sum>e\<leftarrow>energies ts. val e)
    \<and> (list_all (\<lambda>l. l = 0) lambda_sterics \<and> list_all (\<lambda>l. l = 0) lambda_electrostatics
         \<longrightarrow> E = 0)"
proof -
  from assms obtain ts where
    ev: "evaluate M positions lambda_sterics lambda_electrostatics batch atom_features = Inr ts"
    and E: "E = val (t_sum (energies ts))"
    by (rule forward_Some)
  from ev obtain b x l_e l_s ei ea gi ga where
    b: "default_batch M batch = Inr b"
    and le: "index_select (lambda_scale (electrostatics_ff M) lambda_electrostatics) b = Inr l_e"
    and ls: "index_select (lambda_scale (sterics_ff M) lambda_sterics) b = Inr l_s"
    and len: "length x = length b"
    and ts: "ts = message_passing M x ei ea gi ga l_e l_s"
    by (rule evaluate_Inr)
  have lts: "length ts = length b"
    by (simp add: ts len)
  have l_e: "l_e = map (\<lambda>k. lambda_scale (electrostatics_ff M) lambda_electrostatics ! k) b"
    and be: "list_all (\<lambda>k. k < length lambda_electrostatics) b"
    using index_select_Inr [OF le] by simp_all
  have l_s: "l_s = map (\<lambda>k. lambda_scale (sterics_ff M) lambda_sterics ! k) b"
    and bs: "list_all (\<lambda>k. k < length lambda_sterics) b"
    using index_select_Inr [OF ls] by simp_all
  have atoms: "b ! i < length lambda_electrostatics \<and> b ! i < length lambda_sterics
        \<and> l_electrostatics (ts ! i) =
            electrostatics_ff M (lambda_electrostatics ! (b ! i)) * lambda_electrostatics ! (b ! i)
        \<and> l_sterics (ts ! i) =
            sterics_ff M (lambda_sterics ! (b ! i)) * lambda_sterics ! (b ! i)
        \<and> val (energies ts ! i) =
            val (elec (ts ! i)) * l_electrostatics (ts ! i) + val (sa (ts ! i)) * l_sterics (ts ! i)"
    if i: "i < length ts" for i
  proof -
    have ib: "i < length b" and ix: "i < length x"
      using i lts len by simp_all
    have 1: "b ! i < length lambda_electrostatics" "b ! i < length lambda_sterics"
      using be bs ib by (simp_all add: list_all_length)
    have "l_electrostatics (ts ! i) = l_e ! i" "l_sterics (ts ! i) = l_s ! i"
      unfolding ts by (simp_all add: nth_message_passing_lambdas [OF ix])
    then have 2: "l_electrostatics (ts ! i) =
            electrostatics_ff M (lambda_electrostatics ! (b ! i)) * lambda_electrostatics ! (b ! i)"
      "l_sterics (ts ! i) = sterics_ff M (lambda_sterics ! (b ! i)) * lambda_sterics ! (b ! i)"
      using ib 1 by (simp_all add: l_e l_s nth_lambda_scale)
    show ?thesis
      using 1 2 val_nth_energies [OF i] by simp
  qed
  have zero: "E = 0"
    if "list_all (\<lambda>l. l = 0) lambda_sterics \<and> list_all (\<lambda>l. l = 0) lambda_electrostatics"
    unfolding E using that evaluate_zero_lambdas [OF _ _ ev] by (intro val_energies_zero) simp
  have "E = (\<Sum>e\<leftarrow>energies ts. val e)"
    by (simp add: E val_t_sum)
  with ev b lts atoms zero show ?thesis
    by blast
qed

theorem zero_lambda_vanishing_witness:
  "list_all (\<lambda>l. l = 0) [0::real]
   \<and> (\<exists>F. forward example_model example_positions [0] [0] True (Some [0, 0])
             (Some example_features) = Inr (Some (0, F)))"
proof -
  obtain ts where
    "evaluate example_model example_positions [0] [0] (Some [0, 0]) (Some example_features) = Inr ts"
    using example_evaluate_zero_lambda by blast
  then have f: "forward example_model example_positions [0] [0] True (Some [0, 0])
                  (Some example_features)
                = Inr (Some (val (t_sum (energies ts)), - grad (t_sum (energies ts))))"
    by (simp add: forward_def Let_def)
  from zero_lambda_vanishing [OF f]
  have "list_all (\<lambda>l. l = 0) [0::real] \<and> list_all (\<lambda>l. l = 0) [0::real]
          \<longrightarrow> val (t_sum (energies ts)) = 0"
    by blast
  then have "val (t_sum (energies ts)) = 0"
    by simp
  with f show ?thesis by simp
qed

lemma node_features_exception_iff:
  "node_features M positions lambda_sterics lambda_electrostatics atom_features
       = Inl (Exception m)
   \<longleftrightarrow> gnn_params M = None \<and> atom_features = None \<and> m = ''No GNN Params Given''"
  by (auto simp: node_features_def expand_def split: option.splits sum.splits if_splits)

lemma default_batch_Inr_iff:
  "(\<exists>b. default_batch M batch = Inr b) \<longleftrightarrow> batch \<noteq> None \<or> gnn_params M \<noteq> None"
  by (auto simp: default_batch_def split: option.splits)

lemma default_batch_not_exception: "default_batch M batch \<noteq> Inl (Exception m)"
  by (auto simp: default_batch_def split: option.splits)

lemma evaluate_exception_iff:
  "evaluate M positions lambda_sterics lambda_electrostatics batch atom_features
       = Inl (Exception m)
   \<longleftrightarrow> \<not> (case batch of None \<Rightarrow> False | Some b \<Rightarrow> length b \<noteq> length positions)
       \<and> (\<exists>b. default_batch M batch = Inr b)
       \<and> node_features M positions lambda_sterics lambda_electrostatics atom_features
           = Inl (Exception m)"
proof (cases "default_batch M batch")
  case (Inl e)
  then show ?thesis
    using default_batch_not_exception [of M batch m]
    by (auto simp: evaluate_def Let_def)
next
  case (Inr b)
  show ?thesis
  proof (cases "node_features M positions lambda_sterics lambda_electrostatics atom_features")
    case (Inl e)
    with Inr show ?thesis
      by (auto simp: evaluate_def Let_def)
  next
    case x: (Inr x)
    with Inr show ?thesis
      by (auto simp: evaluate_def Let_def index_select_def split: sum.splits if_splits)
  qed
qed

lemma no_params_exception_iff:
  "forward M positions lambda_sterics lambda_electrostatics rf batch atom_features
       = Inl (Exception ''No GNN Params Given'')
   \<longleftrightarrow> gnn_params M = None \<and> atom_features = None
       \<and> (\<exists>b. batch = Some b \<and> length b = length positions)"
proof -
  have "forward M positions lambda_sterics lambda_electrostatics rf batch atom_features
          = Inl (Exception ''No GNN Params Given'')
        \<longleftrightarrow> evaluate M positions lambda_sterics lambda_electrostatics batch atom_features
          = Inl (Exception ''No GNN Params Given'')"
    by (auto simp: forward_def Let_def split: sum.splits)
  also have "\<dots> \<longleftrightarrow> gnn_params M = None \<and> atom_features = None
       \<and> (\<exists>b. batch = Some b \<and> length b = length positions)"
    unfolding evaluate_exception_iff node_features_exception_iff default_batch_Inr_iff
    by (auto split: option.splits)
  finally show ?thesis .
qed

text \<open>
  C8 (fails on the code). The claim is that the exception "No GNN Params Given" is
  raised exactly when neither \<^verbatim>\<open>gnn_params\<close> nor \<^verbatim>\<open>atom_features\<close> is there, and that the
  evaluation goes on when one of them is. Without the \<^verbatim>\<open>batch\<close> argument and without
  stored \<^verbatim>\<open>gnn_params\<close>, line 381 raises \<^verbatim>\<open>TypeError\<close> first: with the atom features
  given, and with neither given.
\<close>

theorem atom_features_without_batch:
  "forward example_model example_positions [1] [1] True None (Some example_features)
     = Inl TypeError
   \<and> forward example_model example_positions [1] [1] True None None = Inl TypeError"
  by (simp add: forward_def evaluate_def default_batch_def example_model_def Let_def)

text \<open>
  C10. With \<^verbatim>\<open>retrieve_forces\<close> false the forward evaluation returns \<^verbatim>\<open>None\<close>: it raises
  what the evaluation raises and returns \<^verbatim>\<open>None\<close> otherwise. With \<^verbatim>\<open>retrieve_forces\<close>
  true it raises what the evaluation raises and otherwise returns the pair of the
  summed energy and the negated gradient. So a pair is returned exactly when
  \<^verbatim>\<open>retrieve_forces\<close> is true and the evaluation went through, and nothing else (no
  per-molecule energy, no gradient with respect to lambda) is ever returned.
\<close>

theorem forward_return_paths:
  "forward M positions lambda_sterics lambda_electrostatics False batch atom_features =
     (case evaluate M positions lambda_sterics lambda_electrostatics batch atom_features of
        Inl e \<Rightarrow> Inl e | Inr ts \<Rightarrow> Inr None)
   \<and> forward M positions lambda_sterics lambda_electrostatics True batch atom_features =
     (case evaluate M positions lambda_sterics lambda_electrostatics batch atom_features of
        Inl e \<Rightarrow> Inl e
      | Inr ts \<Rightarrow> Inr (Some (val (t_sum (energies ts)), - grad (t_sum (energies ts)))))
   \<and> (forward M positions lambda_sterics lambda_electrostatics rf batch atom_features
        = Inr (Some (E, F)) \<longleftrightarrow>
      rf \<and> (\<exists>ts. evaluate M positions lambda_sterics lambda_electrostatics batch atom_features
                    = Inr ts
                \<and> E = val (t_sum (energies ts)) \<and> F = - grad (t_sum (energies ts))))
   \<and> (forward M positions lambda_sterics lambda_electrostatics rf batch atom_features
        = Inr None \<longleftrightarrow>
      \<not> rf \<and> (\<exists>ts. evaluate M positions lambda_sterics lambda_electrostatics batch atom_features
                    = Inr ts))"
  by (auto simp: forward_def Let_def split: sum.splits)

theorem forward_return_paths_witness:
  "forward example_model example_positions [1] [1] False (Some [0, 0]) (Some example_features)
     = Inr None
   \<and> forward example_model example_positions [1] [1] True (Some [0, 0]) (Some example_features)
     = Inr (Some (87/200 + (1/2) * (4.184 * (542/100000) * (23/10) * 100)
                  * ((15/100 + 195141/10000000 + 14/100)\<^sup>2 + (12/100 + 195141/10000000 + 14/100)\<^sup>2),
                - (1/2) * (4.184 * (542/100000) * 100)
                  * ((15/100 + 195141/10000000 + 14/100)\<^sup>2 + (12/100 + 195141/10000000 + 14/100)\<^sup>2)))"
  using forward_return_paths [of example_model example_positions "[1]" "[1]" "Some [0, 0]"
      "Some example_features" True]
  by (simp add: example_evaluate energies_def atom_energy_def t_add_def t_mul_def t_const_def
      no_grad_def power2_eq_square)

section \<open>The radial basis encoding: kernels and their support\<close>

lemma length_linspace [simp]: "length (linspace a b n) = n"
  by (simp add: linspace_def)

lemma nth_linspace: "i < n \<Longrightarrow> linspace a b n ! i = a + real i * ((b - a) / real (n - 1))"
  by (simp add: linspace_def)

lemma linspace_first: "0 < n \<Longrightarrow> linspace a b n ! 0 = a"
  by (simp add: nth_linspace)

lemma linspace_last: "1 < n \<Longrightarrow> linspace a b n ! (n - 1) = b"
  by (simp add: nth_linspace)

lemma linspace_step:
  assumes "Suc i < n"
  shows "linspace a b n ! Suc i - linspace a b n ! i = (b - a) / real (n - 1)"
proof -
  have "a + real (Suc i) * c - (a + real i * c) = c" for c :: real
    by (simp add: algebra_simps)
  then show ?thesis
    using assms by (simp only: nth_linspace Suc_lessD)
qed

lemma length_centers [simp]: "length (centers alpha mx mn n) = n"
  by (simp add: centers_def Let_def)

lemma length_get_edge_features [simp]: "length (get_edge_features d alpha mx mn n) = n"
  by (simp add: get_edge_features_def Let_def)

lemma nth_centers:
  "i < n \<Longrightarrow> centers alpha mx mn n ! i =
     (mn + alpha * (mx - mn) / (real n + 1))
     + real i * (((mx - alpha * (mx - mn) / (real n + 1))
                  - (mn + alpha * (mx - mn) / (real n + 1))) / real (n - 1))"
  by (simp add: centers_def margin_def Let_def nth_linspace)

lemma centers_step:
  "Suc i < n \<Longrightarrow> centers alpha mx mn n ! Suc i - centers alpha mx mn n ! i =
     ((mx - alpha * (mx - mn) / (real n + 1))
      - (mn + alpha * (mx - mn) / (real n + 1))) / real (n - 1)"
  unfolding centers_def margin_def Let_def by (rule linspace_step)

lemma nth_get_edge_features:
  "i < n \<Longrightarrow> alpha * (mx - mn) / (real n + 1) \<noteq> 0 \<Longrightarrow>
     get_edge_features d alpha mx mn n ! i =
       Some (max 0 ((1 - ((d - centers alpha mx mn n ! i)
                          / (alpha * (mx - mn) / (real n + 1)))\<^sup>2) ^ 3))"
  by (simp add: get_edge_features_def margin_def Let_def)

lemma bump_zero_outside:
  fixes k m :: real
  assumes "0 < m" and "m \<le> \<bar>k\<bar>"
  shows "max 0 ((1 - (k / m)\<^sup>2) ^ 3) = 0"
proof -
  have "1 \<le> \<bar>k\<bar> / m" using assms by (simp add: field_simps)
  then have "1 \<le> \<bar>k / m\<bar>" using assms(1) by simp
  then have "1\<^sup>2 \<le> (k / m)\<^sup>2"
    by (metis abs_le_square_iff abs_one)
  then have "1 - (k / m)\<^sup>2 \<le> 0" by simp
  then have "(1 - (k / m)\<^sup>2) ^ 3 \<le> 0"
    by (simp add: power3_eq_cube mult_le_0_iff zero_le_mult_iff)
  then show ?thesis by simp
qed

text \<open>
  C6 (amended). For every distance the encoding has \<open>num_kernels\<close> entries, one per
  center; with \<open>margin = alpha * (max_range - min_range) / (num_kernels + 1)\<close> the centers
  run from \<open>min_range + margin\<close> to \<open>max_range - margin\<close> in equal steps; when the margin
  is not 0, entry \<open>i\<close> is \<open>max 0 ((1 - ((d - center i) / margin)\<^sup>2) ^ 3)\<close>, which is not
  negative; and when the margin is positive (as with the default arguments) the entry
  is 0 whenever \<open>\<bar>d - center i\<bar> \<ge> margin\<close>.
\<close>

theorem get_edge_features_kernels:
  fixes d alpha max_range min_range :: real and n :: nat
  shows
  "(let m = alpha * (max_range - min_range) / (real n + 1);
        cs = centers alpha max_range min_range n;
        fs = get_edge_features d alpha max_range min_range n
    in length fs = n \<and> length cs = n
     \<and> (\<forall>i<n. cs ! i = (min_range + m)
                         + real i * (((max_range - m) - (min_range + m)) / real (n - 1)))
     \<and> (\<forall>i. Suc i < n \<longrightarrow>
            cs ! Suc i - cs ! i = ((max_range - m) - (min_range + m)) / real (n - 1))
     \<and> (0 < n \<longrightarrow> cs ! 0 = min_range + m)
     \<and> (1 < n \<longrightarrow> cs ! (n - 1) = max_range - m)
     \<and> (m \<noteq> 0 \<longrightarrow>
          (\<forall>i<n. fs ! i = Some (max 0 ((1 - ((d - cs ! i) / m)\<^sup>2) ^ 3))
                \<and> (\<exists>v. fs ! i = Some v \<and> 0 \<le> v)))
     \<and> (0 < m \<longrightarrow> (\<forall>i<n. m \<le> \<bar>d - cs ! i\<bar> \<longrightarrow> fs ! i = Some 0)))"
proof -
  define m where "m = alpha * (max_range - min_range) / (real n + 1)"
  define cs where "cs = centers alpha max_range min_range n"
  define fs where "fs = get_edge_features d alpha max_range min_range n"
  have c: "cs ! i = (min_range + m) + real i * (((max_range - m) - (min_range + m)) / real (n - 1))"
    if "i < n" for i
    unfolding cs_def m_def by (rule nth_centers [OF that])
  have st: "cs ! Suc i - cs ! i = ((max_range - m) - (min_range + m)) / real (n - 1)"
    if "Suc i < n" for i
    unfolding cs_def m_def by (rule centers_step [OF that])
  have first: "cs ! 0 = min_range + m" if "0 < n"
    using c [OF that] by simp
  have last: "cs ! (n - 1) = max_range - m" if "1 < n"
    using c [of "n - 1"] that by simp
  have f: "fs ! i = Some (max 0 ((1 - ((d - cs ! i) / m)\<^sup>2) ^ 3))" if "i < n" "m \<noteq> 0" for i
    using that unfolding fs_def cs_def m_def by (intro nth_get_edge_features)
  have z: "fs ! i = Some 0" if "i < n" "0 < m" "m \<le> \<bar>d - cs ! i\<bar>" for i
    using f [of i] that by (simp add: bump_zero_outside)
  have "length fs = n" "length cs = n"
    by (simp_all add: fs_def cs_def)
  with c st first last f z
  have "length fs = n \<and> length cs = n
     \<and> (\<forall>i<n. cs ! i = (min_range + m)
                         + real i * (((max_range - m) - (min_range + m)) / real (n - 1)))
     \<and> (\<forall>i. Suc i < n \<longrightarrow>
            cs ! Suc i - cs ! i = ((max_range - m) - (min_range + m)) / real (n - 1))
     \<and> (0 < n \<longrightarrow> cs ! 0 = min_range + m)
     \<and> (1 < n \<longrightarrow> cs ! (n - 1) = max_range - m)
     \<and> (m \<noteq> 0 \<longrightarrow>
          (\<forall>i<n. fs ! i = Some (max 0 ((1 - ((d - cs ! i) / m)\<^sup>2) ^ 3))
                \<and> (\<exists>v. fs ! i = Some v \<and> 0 \<le> v)))
     \<and> (0 < m \<longrightarrow> (\<forall>i<n. m \<le> \<bar>d - cs ! i\<bar> \<longrightarrow> fs ! i = Some 0))"
    by simp
  then show ?thesis
    unfolding Let_def m_def cs_def fs_def .
qed

theorem get_edge_features_kernels_witness:
  "length (get_edge_features (1/4) 2 (4/10) (1/10) 32) = 32
   \<and> centers 2 (4/10) (1/10) 32 ! 0 = 39/330
   \<and> centers 2 (4/10) (1/10) 32 ! 31 = 126/330
   \<and> centers 2 (4/10) (1/10) 32 ! 1 - centers 2 (4/10) (1/10) 32 ! 0 = (87/330) / 31
   \<and> (0::real) < 2 * (4/10 - 1/10) / (real 32 + 1)
   \<and> 2 * (4/10 - 1/10) / (real 32 + 1) \<le> \<bar>1/4 - centers 2 (4/10) (1/10) 32 ! 0\<bar>
   \<and> get_edge_features (1/4) 2 (4/10) (1/10) 32 ! 0 = Some 0
   \<and> get_edge_features (40/330) 2 (4/10) (1/10) 32 ! 0
       = Some (max 0 ((1 - ((40/330 - 39/330) / (6/330))\<^sup>2) ^ 3))"
  using get_edge_features_kernels
      [where d = "1/4" and alpha = 2 and max_range = "4/10" and min_range = "1/10" and n = 32]
    get_edge_features_kernels
      [where d = "40/330" and alpha = 2 and max_range = "4/10" and min_range = "1/10" and n = 32]
  by (simp add: Let_def)

text \<open>
  The claim as stated, for any arguments, fails for a negative margin: with
  \<open>alpha = -2\<close> and the other defaults the margin is \<open>-1/55\<close>, so that
  \<open>\<bar>d - center\<bar> \<ge> margin\<close> holds for every distance, and at the first center,
  \<open>d = 9/110\<close>, the entry is 1.
\<close>

theorem get_edge_features_counterexample:
  "(- 2) * (4/10 - 1/10) / (real 32 + 1) \<le> \<bar>9/110 - centers (- 2) (4/10) (1/10) 32 ! 0\<bar>
   \<and> get_edge_features (9/110) (- 2) (4/10) (1/10) 32 ! 0 = Some 1
   \<and> get_edge_features (9/110) (- 2) (4/10) (1/10) 32 ! 0 \<noteq> Some 0"
  by (simp add: nth_get_edge_features nth_centers)

section \<open>The datasets: empty frames and indices out of range\<close>

lemma getitem_in_range: "0 \<le> i \<Longrightarrow> i < int (length xs) \<Longrightarrow> getitem xs i = Inr (xs ! nat i)"
  by (simp add: getitem_def Let_def)

text \<open>
  \<^verbatim>\<open>MAFBigBind.__getitem__\<close> makes both checks: an index at or past the length raises
  "Index out of bounds", and a first frame without atoms raises "Empty positions
  encountered".
\<close>

lemma MAFBigBind_getitem_out_of_bounds:
  "int (MAFBigBind_len ds) \<le> index \<Longrightarrow>
     MAFBigBind_getitem lib ds index = Inl (IndexError ''Index out of bounds'')"
  by (simp add: MAFBigBind_getitem_def)

lemma MAFBigBind_getitem_empty_positions:
  assumes "0 \<le> index" and "index < int (MAFBigBind_len ds)"
    and "ds_positions (mb_groups ds ! nat index) = [] # frames"
  shows "MAFBigBind_getitem lib ds index = Inl (IndexError ''Empty positions encountered'')"
  using assms
  by (simp add: MAFBigBind_getitem_def MAFBigBind_len_def getitem_in_range Let_def getitem_def)

lemma MAFBigBind_getitem_returns_atoms:
  "MAFBigBind_getitem lib ds index = Inr d \<Longrightarrow> d_pos d \<noteq> [] \<and> index < int (MAFBigBind_len ds)"
  by (auto simp: MAFBigBind_getitem_def Let_def split: if_splits sum.splits)

text \<open>
  C9 (fails on the code). The claim is that both \<^verbatim>\<open>__getitem__\<close> methods raise an
  empty-input error on a frame without atoms and an out-of-bounds error on an index at
  or past the length. \<^verbatim>\<open>BigBindSolvDataset.__getitem__\<close> makes neither check: on a
  dataset of length 1 whose frame has no atoms, index 0 returns an item with no
  positions, and index 1 returns the same item.
\<close>

theorem BigBindSolvDataset_getitem_unchecked:
  "BigBindSolvDataset_len empty_frame_dataset = Inr 1
   \<and> BigBindSolvDataset_getitem rnd empty_frame_dataset 0 =
       Inr \<lparr>md_charges = [], md_positions = [], md_atomic_numbers = [], md_forces = [],
            md_lambda_sterics = 1, md_lambda_electrostatics = 1,
            md_sterics_derivative = 0, md_electrostatics_derivative = 0\<rparr>
   \<and> BigBindSolvDataset_getitem rnd empty_frame_dataset 1 =
       BigBindSolvDataset_getitem rnd empty_frame_dataset 0"
  by (simp add: BigBindSolvDataset_len_def BigBindSolvDataset_getitem_def choose_frame_def
      empty_frame_dataset_def empty_frame_group_def getitem_def Let_def)

section \<open>Neighbour graphs: no self-loops, no edge across molecules\<close>

subsection \<open>Loops as one pass over the list of writes\<close>

lemma for_each_append:
  "for_each (xs @ ys) body s =
     (case for_each xs body s of Inl e \<Rightarrow> Inl e | Inr s' \<Rightarrow> for_each ys body s')"
  by (induction xs arbitrary: s) (auto split: sum.splits)

lemma for_each_map: "for_each (map f xs) body s = for_each xs (\<lambda>x. body (f x)) s"
  by (induction xs arbitrary: s) (auto split: sum.splits)

lemma for_each_concat:
  "for_each xs (\<lambda>x. for_each (g x) body) s = for_each (concat (map g xs)) body s"
  by (induction xs arbitrary: s) (auto simp: for_each_append split: sum.splits)

lemma for_each_skip:
  "for_each xs (\<lambda>x s. if P x then body x s else Inr s) s = for_each (filter P xs) body s"
  by (induction xs arbitrary: s) (auto split: sum.splits)

lemma for_each_cong:
  "(\<And>x s. x \<in> set xs \<Longrightarrow> body x s = body' x s) \<Longrightarrow> for_each xs body s = for_each xs body' s"
  by (induction xs arbitrary: s) (auto split: sum.splits)

text \<open>Writing the columns \<open>j, j + 1, \<dots>\<close> in order fills the tensor from \<open>j\<close> on.\<close>

lemma for_each_set_column:
  assumes "length r0 = length r1" and "j + length ws = length r0"
    and "map fst ws = [j..<j + length ws]"
  shows "for_each ws (\<lambda>(k, s, t) edge_index. set_column edge_index k s t) (r0, r1) =
           Inr (take j r0 @ map (\<lambda>(k, s, t). s) ws, take j r1 @ map (\<lambda>(k, s, t). t) ws)"
  using assms
proof (induction ws arbitrary: j r0 r1)
  case Nil
  then show ?case by simp
next
  case (Cons w ws)
  obtain k s t where w: "w = (k, s, t)" by (cases w)
  have "[j..<j + length (w # ws)] = j # [Suc j..<Suc j + length ws]"
    by (subst upt_rec) simp
  with Cons.prems(3) have k: "k = j" and rest: "map fst ws = [Suc j..<Suc j + length ws]"
    by (simp_all add: w)
  from Cons.prems have j: "j < length r0" "j < length r1" by simp_all
  have step: "set_column (r0, r1) k s t = Inr (r0[j := s], r1[j := t])"
    using j by (simp add: set_column_def set_entry_def k)
  have "for_each ws (\<lambda>(k, s, t) edge_index. set_column edge_index k s t) (r0[j := s], r1[j := t]) =
          Inr (take (Suc j) (r0[j := s]) @ map (\<lambda>(k, s, t). s) ws,
               take (Suc j) (r1[j := t]) @ map (\<lambda>(k, s, t). t) ws)"
    using Cons.prems rest by (intro Cons.IH) simp_all
  moreover have "take (Suc j) (r0[j := s]) = take j r0 @ [s]"
    "take (Suc j) (r1[j := t]) = take j r1 @ [t]"
    using j by (simp_all add: take_Suc_conv_app_nth)
  ultimately show ?case
    by (simp add: w step)
qed

subsection \<open>The columns are written in order\<close>

lemma filter_neq_upt:
  "node < n \<Longrightarrow> filter (\<lambda>con. con \<noteq> node) [0..<n] = [0..<node] @ [Suc node..<n]"
proof -
  assume "node < n"
  then have "[0..<n] = [0..<node] @ node # [Suc node..<n]"
    by (metis le_add1 less_imp_add_positive upt_add_eq_append upt_conv_Cons zero_le add_0)
  then show ?thesis by (simp add: filter_id_conv)
qed

lemma column_indices:
  assumes "node < n"
  shows "map (\<lambda>con. if con < node then b + con else b + con - 1)
             (filter (\<lambda>con. con \<noteq> node) [0..<n]) = [b..<b + (n - 1)]"
proof -
  have "map (\<lambda>con. if con < node then b + con else b + con - 1) [0..<node]
        = map (\<lambda>i. i + b) [0..<node]"
    by (rule map_cong) auto
  also have "\<dots> = [b..<node + b]"
    by (rule map_add_upt)
  finally have 1: "map (\<lambda>con. if con < node then b + con else b + con - 1) [0..<node]
        = [b..<b + node]"
    by (simp add: add.commute)
  have "map (\<lambda>i. i + Suc node) [0..<n - Suc node] = [Suc node..<n - Suc node + Suc node]"
    by (rule map_add_upt)
  then have A: "[Suc node..<n] = map (\<lambda>i. i + Suc node) [0..<n - Suc node]"
    using assms by simp
  have "map (\<lambda>con. if con < node then b + con else b + con - 1) [Suc node..<n]
        = map (\<lambda>i. if i + Suc node < node then b + (i + Suc node) else b + (i + Suc node) - 1)
            [0..<n - Suc node]"
    by (subst A) (simp add: o_def)
  also have "\<dots> = map (\<lambda>i. i + (b + node)) [0..<n - Suc node]"
    by (rule map_cong) auto
  also have "\<dots> = [b + node..<n - Suc node + (b + node)]"
    by (rule map_add_upt)
  also have "\<dots> = [b + node..<b + node + (n - Suc node)]"
    by (simp add: add.commute)
  finally have 2: "map (\<lambda>con. if con < node then b + con else b + con - 1) [Suc node..<n]
        = [b + node..<b + node + (n - Suc node)]" .
  have e: "b + node + (n - Suc node) = b + (n - 1)"
    using assms by simp
  have "[b..<b + node + (n - Suc node)] = [b..<b + node] @ [b + node..<b + node + (n - Suc node)]"
    by (rule upt_add_eq_append) simp
  then have 3: "[b..<b + (n - 1)] = [b..<b + node] @ [b + node..<b + (n - 1)]"
    unfolding e .
  have 4: "map (\<lambda>con. if con < node then b + con else b + con - 1) [Suc node..<n]
        = [b + node..<b + (n - 1)]"
    using 2 unfolding e .
  show ?thesis
    unfolding filter_neq_upt [OF assms] map_append 1 4 3 ..
qed

lemma concat_blocks: "concat (map (\<lambda>i. [b + i * w..<b + Suc i * w]) [0..<m]) = [b..<b + m * w]"
proof (induction m)
  case 0
  then show ?case by simp
next
  case (Suc m)
  have "[b..<(b + m * w) + w] = [b..<b + m * w] @ [b + m * w..<(b + m * w) + w]"
    by (rule upt_add_eq_append) simp
  then show ?case
    using Suc by (simp add: add.assoc add.commute [of w])
qed

subsection \<open>The edge list is the list of pairs\<close>

lemma for_each_concat_fun:
  "for_each xs (\<lambda>x. for_each (g x) body) = for_each (concat (map g xs)) body"
  by (rule ext) (rule for_each_concat)

lemma inner_loop:
  "for_each [0..<n] (\<lambda>con edge_index.
       if con < node then set_column edge_index (b + con) s (c + con)
       else if con > node then set_column edge_index (b + con - 1) s (c + con)
       else Inr edge_index) =
   for_each (map (\<lambda>con. (if con < node then b + con else b + con - 1, s, c + con))
                 (filter (\<lambda>con. con \<noteq> node) [0..<n]))
            (\<lambda>(k, s, t) edge_index. set_column edge_index k s t)"
proof (rule ext)
  fix ei
  have "for_each [0..<n] (\<lambda>con edge_index.
       if con < node then set_column edge_index (b + con) s (c + con)
       else if con > node then set_column edge_index (b + con - 1) s (c + con)
       else Inr edge_index) ei
    = for_each [0..<n] (\<lambda>con edge_index.
       if con \<noteq> node
       then set_column edge_index (if con < node then b + con else b + con - 1) s (c + con)
       else Inr edge_index) ei"
    by (rule for_each_cong) auto
  then show "for_each [0..<n] (\<lambda>con edge_index.
       if con < node then set_column edge_index (b + con) s (c + con)
       else if con > node then set_column edge_index (b + con - 1) s (c + con)
       else Inr edge_index) ei =
   for_each (map (\<lambda>con. (if con < node then b + con else b + con - 1, s, c + con))
                 (filter (\<lambda>con. con \<noteq> node) [0..<n]))
            (\<lambda>(k, s, t) edge_index. set_column edge_index k s t) ei"
    by (simp add: for_each_skip for_each_map)
qed

lemma build_edge_idx_writes:
  "build_edge_idx n reps =
     for_each
       (concat (map (\<lambda>rep. concat (map (\<lambda>node.
          map (\<lambda>con. (if con < node then rep * (n * (n - 1)) + node * (n - 1) + con
                        else rep * (n * (n - 1)) + node * (n - 1) + con - 1,
                        rep * n + node, rep * n + con))
              (filter (\<lambda>con. con \<noteq> node) [0..<n])) [0..<n])) [0..<reps]))
       (\<lambda>(k, s, t) edge_index. set_column edge_index k s t)
       (replicate (reps * (n * (n - 1))) 0, replicate (reps * (n * (n - 1))) 0)"
  unfolding build_edge_idx_def Let_def
  unfolding inner_loop
  unfolding for_each_concat_fun ..

lemma concat_ranges: "concat (map (\<lambda>i. [b + i * w..<b + i * w + w]) [0..<m]) = [b..<b + m * w]"
  using concat_blocks [of b w m] by (simp add: add.assoc add.commute [of w])

lemma write_indices:
  "map fst (concat (map (\<lambda>rep. concat (map (\<lambda>node.
          map (\<lambda>con. (if con < node then rep * (n * (n - 1)) + node * (n - 1) + con
                        else rep * (n * (n - 1)) + node * (n - 1) + con - 1,
                        rep * n + node, rep * n + con))
              (filter (\<lambda>con. con \<noteq> node) [0..<n])) [0..<n])) [0..<reps]))
   = [0..<reps * (n * (n - 1))]"
proof -
  define T where "T rep node =
      map (\<lambda>con. (if con < node then rep * (n * (n - 1)) + node * (n - 1) + con
                    else rep * (n * (n - 1)) + node * (n - 1) + con - 1,
                    rep * n + node, rep * n + con))
          (filter (\<lambda>con. con \<noteq> node) [0..<n])" for rep node
  have A: "map fst (T rep node)
           = [rep * (n * (n - 1)) + node * (n - 1)..<rep * (n * (n - 1)) + node * (n - 1) + (n - 1)]"
    if "node < n" for rep node
    unfolding T_def map_map o_def fst_conv
    by (rule column_indices [OF that])
  have B: "map fst (concat (map (T rep) [0..<n]))
           = [0 + rep * (n * (n - 1))..<0 + rep * (n * (n - 1)) + n * (n - 1)]" for rep
  proof -
    have "map fst (concat (map (T rep) [0..<n])) = concat (map (\<lambda>node. map fst (T rep node)) [0..<n])"
      by (simp add: map_concat o_def)
    also have "\<dots> = concat (map (\<lambda>node. [rep * (n * (n - 1)) + node * (n - 1)
                                 ..<rep * (n * (n - 1)) + node * (n - 1) + (n - 1)]) [0..<n])"
      by (rule arg_cong [where f = concat], rule map_cong) (simp_all add: A)
    also have "\<dots> = [rep * (n * (n - 1))..<rep * (n * (n - 1)) + n * (n - 1)]"
      by (rule concat_ranges)
    finally show ?thesis by simp
  qed
  have "map fst (concat (map (\<lambda>rep. concat (map (T rep) [0..<n])) [0..<reps]))
        = concat (map (\<lambda>rep. map fst (concat (map (T rep) [0..<n]))) [0..<reps])"
    by (simp add: map_concat o_def)
  also have "\<dots> = concat (map (\<lambda>rep. [0 + rep * (n * (n - 1))
                                 ..<0 + rep * (n * (n - 1)) + n * (n - 1)]) [0..<reps])"
    by (simp only: B)
  also have "\<dots> = [0..<0 + reps * (n * (n - 1))]"
    by (rule concat_ranges)
  finally show ?thesis
    unfolding T_def by simp
qed

lemma written_pairs:
  "map (\<lambda>(k, s, t). (s, t)) (concat (map (\<lambda>rep. concat (map (\<lambda>node.
          map (\<lambda>con. (if con < node then rep * (n * (n - 1)) + node * (n - 1) + con
                        else rep * (n * (n - 1)) + node * (n - 1) + con - 1,
                        rep * n + node, rep * n + con))
              (filter (\<lambda>con. con \<noteq> node) [0..<n])) [0..<n])) [0..<reps]))
   = replica_pairs n reps"
  by (simp add: replica_pairs_def map_concat o_def)

lemma build_edge_idx_pairs:
  "build_edge_idx n reps =
     Inr (map fst (replica_pairs n reps), map snd (replica_pairs n reps))"
proof -
  define ws where "ws = concat (map (\<lambda>rep. concat (map (\<lambda>node.
          map (\<lambda>con. (if con < node then rep * (n * (n - 1)) + node * (n - 1) + con
                        else rep * (n * (n - 1)) + node * (n - 1) + con - 1,
                        rep * n + node, rep * n + con))
              (filter (\<lambda>con. con \<noteq> node) [0..<n])) [0..<n])) [0..<reps])"
  define L where "L = reps * (n * (n - 1))"
  have idx: "map fst ws = [0..<L]"
    unfolding ws_def L_def by (rule write_indices)
  then have len: "length ws = L"
    by (metis length_map length_upt diff_zero)
  have pairs: "map (\<lambda>(k, s, t). (s, t)) ws = replica_pairs n reps"
    unfolding ws_def by (rule written_pairs)
  have "for_each ws (\<lambda>(k, s, t) edge_index. set_column edge_index k s t)
          (replicate L 0, replicate L 0)
        = Inr (take 0 (replicate L 0) @ map (\<lambda>(k, s, t). s) ws,
               take 0 (replicate L 0) @ map (\<lambda>(k, s, t). t) ws)"
    by (rule for_each_set_column) (simp_all add: len idx)
  moreover have "map (\<lambda>(k, s, t). s) ws = map fst (replica_pairs n reps)"
    "map (\<lambda>(k, s, t). t) ws = map snd (replica_pairs n reps)"
    unfolding pairs [symmetric] by (simp_all add: o_def split_def)
  ultimately have "for_each ws (\<lambda>(k, s, t) edge_index. set_column edge_index k s t)
          (replicate L 0, replicate L 0)
        = Inr (map fst (replica_pairs n reps), map snd (replica_pairs n reps))"
    by (simp only: take_0 append_Nil)
  then show ?thesis
    unfolding build_edge_idx_writes ws_def L_def .
qed

subsection \<open>The pairs\<close>

lemma in_concat_map: "x \<in> set xs \<Longrightarrow> y \<in> set (f x) \<Longrightarrow> y \<in> set (concat (map f xs))"
  by auto

lemma replica_pairs_member:
  "e \<in> set (replica_pairs n reps) \<longleftrightarrow>
     (\<exists>rep a b. rep < reps \<and> a < n \<and> b < n \<and> a \<noteq> b \<and> e = (rep * n + a, rep * n + b))"
proof
  assume "e \<in> set (replica_pairs n reps)"
  then obtain rep node con where "rep < reps" "node < n" "con < n" "con \<noteq> node"
    "e = (rep * n + node, rep * n + con)"
    by (auto simp: replica_pairs_def)
  then show "\<exists>rep a b. rep < reps \<and> a < n \<and> b < n \<and> a \<noteq> b \<and> e = (rep * n + a, rep * n + b)"
    by blast
next
  assume "\<exists>rep a b. rep < reps \<and> a < n \<and> b < n \<and> a \<noteq> b \<and> e = (rep * n + a, rep * n + b)"
  then obtain rep a b where h: "rep < reps" "a < n" "b < n" "a \<noteq> b"
    and e: "e = (rep * n + a, rep * n + b)"
    by blast
  show "e \<in> set (replica_pairs n reps)"
    unfolding replica_pairs_def
  proof (rule in_concat_map [of rep])
    show "rep \<in> set [0..<reps]" using h by simp
    show "e \<in> set (concat (map (\<lambda>node. map (\<lambda>con. (rep * n + node, rep * n + con))
                                (filter (\<lambda>con. con \<noteq> node) [0..<n])) [0..<n]))"
    proof (rule in_concat_map [of a])
      show "a \<in> set [0..<n]" using h by simp
      show "e \<in> set (map (\<lambda>con. (rep * n + a, rep * n + con)) (filter (\<lambda>con. con \<noteq> a) [0..<n]))"
        using h e by auto
    qed
  qed
qed

lemma set_replica_pairs:
  "set (replica_pairs n reps) =
     {(rep * n + a, rep * n + b) | rep a b. rep < reps \<and> a < n \<and> b < n \<and> a \<noteq> b}"
  using replica_pairs_member [of _ n reps] by blast

lemma length_replica_pairs: "length (replica_pairs n reps) = reps * n * (n - 1)"
proof -
  have "length (replica_pairs n reps) = length [0..<reps * (n * (n - 1))]"
    unfolding written_pairs [symmetric] write_indices [symmetric] by simp
  then show ?thesis by (simp add: mult.assoc)
qed

lemma distinct_concat_map:
  assumes "distinct xs" and "\<And>x. x \<in> set xs \<Longrightarrow> distinct (f x)"
    and "\<And>x y. x \<in> set xs \<Longrightarrow> y \<in> set xs \<Longrightarrow> x \<noteq> y \<Longrightarrow> set (f x) \<inter> set (f y) = {}"
  shows "distinct (concat (map f xs))"
  using assms
proof (induction xs)
  case Nil
  then show ?case by simp
next
  case (Cons x xs)
  have "set (f x) \<inter> set (f y) = {}" if "y \<in> set xs" for y
    using Cons.prems(3) [of x y] Cons.prems(1) that by auto
  then have "set (f x) \<inter> \<Union> (set ` f ` set xs) = {}" by blast
  moreover have "distinct (concat (map f xs))"
    using Cons.prems by (intro Cons.IH) auto
  ultimately show ?case
    using Cons.prems(2) [of x] by simp
qed

lemma same_replica:
  assumes "a < n" and "a' < n" and "rep * n + a = rep' * n + (a'::nat)"
  shows "rep = rep'"
proof -
  have "(rep * n + a) div n = rep" "(rep' * n + a') div n = rep'"
    using assms(1,2) by simp_all
  then show ?thesis using assms(3) by simp
qed

lemma distinct_node_pairs:
  "distinct (map (\<lambda>con. (s, c + con)) (filter (\<lambda>con. con \<noteq> node) [0..<n]))"
  by (simp add: distinct_map inj_on_def)

lemma concat_mapE:
  assumes "e \<in> set (concat (map f xs))"
  obtains x where "x \<in> set xs" "e \<in> set (f x)"
  using assms by auto

lemma fst_node_pairs:
  assumes "e \<in> set (concat (map (\<lambda>node. map (\<lambda>con. (c + node, c + con))
                                      (filter (\<lambda>con. con \<noteq> node) [0..<n])) [0..<n]))"
  shows "\<exists>node<n. fst e = c + node"
proof -
  from assms obtain node where "node \<in> set [0..<n]"
    and "e \<in> set (map (\<lambda>con. (c + node, c + con)) (filter (\<lambda>con. con \<noteq> node) [0..<n]))"
    by (rule concat_mapE)
  then have "node < n" "fst e = c + node"
    by auto
  then show ?thesis by blast
qed

lemma distinct_rep_pairs:
  "distinct (concat (map (\<lambda>node. map (\<lambda>con. (c + node, c + con))
                                      (filter (\<lambda>con. con \<noteq> node) [0..<n])) [0..<n]))"
proof (rule distinct_concat_map)
  show "distinct [0..<n]" by simp
next
  fix node
  show "distinct (map (\<lambda>con. (c + node, c + con)) (filter (\<lambda>con. con \<noteq> node) [0..<n]))"
    by (rule distinct_node_pairs)
next
  fix node node' :: nat
  assume "node \<noteq> node'"
  then show "set (map (\<lambda>con. (c + node, c + con)) (filter (\<lambda>con. con \<noteq> node) [0..<n]))
      \<inter> set (map (\<lambda>con. (c + node', c + con)) (filter (\<lambda>con. con \<noteq> node') [0..<n])) = {}"
    by auto
qed

lemma distinct_replica_pairs: "distinct (replica_pairs n reps)"
  unfolding replica_pairs_def
proof (rule distinct_concat_map)
  show "distinct [0..<reps]" by simp
next
  fix rep
  show "distinct (concat (map (\<lambda>node. map (\<lambda>con. (rep * n + node, rep * n + con))
                                          (filter (\<lambda>con. con \<noteq> node) [0..<n])) [0..<n]))"
    by (rule distinct_rep_pairs)
next
  fix rep rep' :: nat
  assume ne: "rep \<noteq> rep'"
  let ?A = "\<lambda>rep. set (concat (map (\<lambda>node. map (\<lambda>con. (rep * n + node, rep * n + con))
                                          (filter (\<lambda>con. con \<noteq> node) [0..<n])) [0..<n]))"
  have "False" if "e \<in> ?A rep" and "e \<in> ?A rep'" for e
  proof -
    from fst_node_pairs [OF that(1)] obtain node where 1: "node < n" "fst e = rep * n + node"
      by blast
    from fst_node_pairs [OF that(2)] obtain node' where 2: "node' < n" "fst e = rep' * n + node'"
      by blast
    have "rep = rep'"
      by (rule same_replica [of node n node']) (use 1 2 in simp_all)
    with ne show False by simp
  qed
  then show "?A rep \<inter> ?A rep' = {}" by blast
qed

lemma length_set_slice [simp]: "length (set_slice xs a b v) = length xs"
  by (simp add: set_slice_def)

lemma nth_set_slice:
  "k < length xs \<Longrightarrow> set_slice xs a b v ! k = (if a \<le> k \<and> k < b then v else xs ! k)"
  by (simp add: set_slice_def)

lemma fold_set_slice:
  "length (fold (\<lambda>i batch. set_slice batch (i * n) ((i + 1) * n) i) [0..<m] b) = length b
   \<and> (\<forall>k<length b. fold (\<lambda>i batch. set_slice batch (i * n) ((i + 1) * n) i) [0..<m] b ! k
                      = (if k < m * n then k div n else b ! k))"
proof (induction m)
  case 0
  show ?case by simp
next
  case (Suc m)
  let ?f = "\<lambda>i batch. set_slice batch (i * n) ((i + 1) * n) i"
  let ?prev = "fold ?f [0..<m] b"
  have step: "fold ?f [0..<Suc m] b = set_slice ?prev (m * n) ((m + 1) * n) m"
    by simp
  have len: "length ?prev = length b"
    using Suc.IH by simp
  have "fold ?f [0..<Suc m] b ! k = (if k < Suc m * n then k div n else b ! k)"
    if k: "k < length b" for k
  proof -
    have prev: "?prev ! k = (if k < m * n then k div n else b ! k)"
      using Suc.IH k by simp
    have nth: "fold ?f [0..<Suc m] b ! k
                 = (if m * n \<le> k \<and> k < (m + 1) * n then m else ?prev ! k)"
      unfolding step using k len by (simp add: nth_set_slice)
    consider "k < m * n" | "m * n \<le> k" "k < (m + 1) * n" | "(m + 1) * n \<le> k"
      by linarith
    then show ?thesis
    proof cases
      case 1
      then show ?thesis
        using nth prev by simp
    next
      case 2
      have "k div n = m"
        by (rule div_nat_eqI) (use 2 in \<open>simp_all add: mult.commute\<close>)
      then show ?thesis
        using nth 2 by simp
    next
      case 3
      then have "m * n \<le> k" "\<not> k < m * n" "\<not> k < Suc m * n"
        by simp_all
      then show ?thesis
        using nth prev 3 by simp
    qed
  qed
  then show ?case
    unfolding step using len by simp
qed

lemma length_replica_batch [simp]: "length (replica_batch n reps) = reps * n"
  using fold_set_slice [of n reps "replicate (reps * n) 0"] by (simp add: replica_batch_def)

lemma nth_replica_batch:
  assumes "rep < reps" and "a < n"
  shows "replica_batch n reps ! (rep * n + a) = rep"
proof -
  have "rep * n + a < Suc rep * n"
    using assms(2) by simp
  also have "\<dots> \<le> reps * n"
    using assms(1) by (intro mult_le_mono1) simp
  finally have k: "rep * n + a < reps * n" .
  have "(rep * n + a) div n = rep"
    using assms(2) by simp
  then show ?thesis
    using fold_set_slice [of n reps "replicate (reps * n) 0"] k
    by (simp add: replica_batch_def)
qed

subsection \<open>The radius graph\<close>

lemma same_batch_sym: "same_batch batch i j = same_batch batch j i"
  by (auto simp: same_batch_def split: option.splits)

lemma radius_graph_edge:
  assumes "(s, t) \<in> set (radius_graph d pos r batch loop k)"
  shows "(loop \<or> s \<noteq> t) \<and> same_batch batch s t \<and> s < length pos \<and> t < length pos
         \<and> d (pos ! s) (pos ! t) \<le> r"
proof -
  from assms have t: "t < length pos" and "s \<in> set (neighbours d pos r batch loop k t)"
    by (auto simp: radius_graph_def)
  then have "s \<in> set (filter (\<lambda>j. (loop \<or> j \<noteq> t) \<and> same_batch batch t j \<and> d (pos ! j) (pos ! t) \<le> r)
                       [0..<length pos])"
    unfolding neighbours_def by (auto dest: in_set_takeD)
  then show ?thesis
    using t by (auto simp: same_batch_sym [of batch s t])
qed

text \<open>
  C7. No neighbour graph has a self-loop or an edge across molecules: an edge of either
  graph of the forward evaluation (a radius graph built without loops) joins two
  different atoms with the same batch id, and \<^verbatim>\<open>build_edge_idx(num_nodes, num_reps)\<close>
  returns, without an index error, exactly the \<open>num_reps * num_nodes * (num_nodes - 1)\<close>
  ordered pairs of distinct nodes of each replica, each once, both ends in the same
  replica.
\<close>

theorem graphs_without_self_loops:
  "(\<forall>(s, t) \<in> set (forward_edge_index M positions batch)
                \<union> set (forward_gnn_edge_index M positions batch).
       s \<noteq> t \<and> same_batch batch s t \<and> s < length positions \<and> t < length positions)
   \<and> build_edge_idx n reps = Inr (map fst (replica_pairs n reps), map snd (replica_pairs n reps))
   \<and> length (replica_pairs n reps) = reps * n * (n - 1)
   \<and> distinct (replica_pairs n reps)
   \<and> set (replica_pairs n reps) =
       {(rep * n + a, rep * n + b) | rep a b. rep < reps \<and> a < n \<and> b < n \<and> a \<noteq> b}
   \<and> (\<forall>(s, t) \<in> set (replica_pairs n reps).
         s \<noteq> t \<and> replica_batch n reps ! s = replica_batch n reps ! t)"
proof -
  have "\<forall>(s, t) \<in> set (forward_edge_index M positions batch)
                \<union> set (forward_gnn_edge_index M positions batch).
       s \<noteq> t \<and> same_batch batch s t \<and> s < length positions \<and> t < length positions"
  proof (rule ballI)
    fix e
    assume "e \<in> set (forward_edge_index M positions batch)
                \<union> set (forward_gnn_edge_index M positions batch)"
    then consider
      "(fst e, snd e) \<in> set (radius_graph (metric M) positions (gbneck_radius M) batch False
                                 (max_num_neighbors M))"
      | "(fst e, snd e) \<in> set (radius_graph (metric M) positions (gnn_radius M) batch False
                                   (max_num_neighbors M))"
      by (auto simp: forward_edge_index_def forward_gnn_edge_index_def)
    then show "case e of (s, t) \<Rightarrow>
            s \<noteq> t \<and> same_batch batch s t \<and> s < length positions \<and> t < length positions"
    proof cases
      case 1
      from radius_graph_edge [OF this] show ?thesis
        by (simp add: case_prod_beta)
    next
      case 2
      from radius_graph_edge [OF this] show ?thesis
        by (simp add: case_prod_beta)
    qed
  qed
  moreover have "\<forall>(s, t) \<in> set (replica_pairs n reps).
         s \<noteq> t \<and> replica_batch n reps ! s = replica_batch n reps ! t"
  proof (rule ballI)
    fix e
    assume "e \<in> set (replica_pairs n reps)"
    then obtain rep a b where "rep < reps" "a < n" "b < n" "a \<noteq> b"
      "e = (rep * n + a, rep * n + b)"
      unfolding replica_pairs_member by blast
    then show "case e of (s, t) \<Rightarrow>
                 s \<noteq> t \<and> replica_batch n reps ! s = replica_batch n reps ! t"
      by (simp add: nth_replica_batch)
  qed
  ultimately show ?thesis
    by (intro conjI build_edge_idx_pairs length_replica_pairs distinct_replica_pairs
        set_replica_pairs)
qed

lemma replica_pairs_2_2: "replica_pairs 2 2 = [(0, 1), (1, 0), (2, 3), (3, 2)]"
  by code_simp

lemma example_radius_graph:
  "forward_gnn_edge_index example_model example_positions (Some [0, 0]) = [(1, 0), (0, 1)]"
  "forward_edge_index example_model example_positions (Some [0, 0]) = [(1, 0), (0, 1)]"
  by (simp_all add: forward_gnn_edge_index_def forward_edge_index_def radius_graph_def
      neighbours_def same_batch_def example_model_def example_positions_def upt_2)

theorem graphs_without_self_loops_witness:
  "forward_gnn_edge_index example_model example_positions (Some [0, 0]) = [(1, 0), (0, 1)]
   \<and> same_batch (Some [0, 0]) 1 0
   \<and> build_edge_idx 2 2 = Inr ([0, 1, 2, 3], [1, 0, 3, 2])
   \<and> length (replica_pairs 2 2) = 4
   \<and> distinct (replica_pairs 2 2)
   \<and> replica_batch 2 2 ! 2 = replica_batch 2 2 ! 3"
proof -
  note t = graphs_without_self_loops [of example_model example_positions "Some [0, 0]" 2 2]
  have g: "\<forall>(s, t) \<in> set (forward_edge_index example_model example_positions (Some [0, 0]))
                \<union> set (forward_gnn_edge_index example_model example_positions (Some [0, 0])).
             s \<noteq> t \<and> same_batch (Some [0, 0]) s t
             \<and> s < length example_positions \<and> t < length example_positions"
    by (rule t [THEN conjunct1])
  have b: "build_edge_idx 2 2 = Inr (map fst (replica_pairs 2 2), map snd (replica_pairs 2 2))"
    by (rule t [THEN conjunct2, THEN conjunct1])
  have l: "length (replica_pairs 2 2) = 2 * 2 * (2 - 1)"
    by (rule t [THEN conjunct2, THEN conjunct2, THEN conjunct1])
  have d: "distinct (replica_pairs 2 2)"
    by (rule t [THEN conjunct2, THEN conjunct2, THEN conjunct2, THEN conjunct1])
  have r: "\<forall>(s, t) \<in> set (replica_pairs 2 2).
             s \<noteq> t \<and> replica_batch 2 2 ! s = replica_batch 2 2 ! t"
    by (rule t [THEN conjunct2, THEN conjunct2, THEN conjunct2, THEN conjunct2, THEN conjunct2])
  have "same_batch (Some [0, 0]) 1 0"
  proof -
    have "(1, 0) \<in> set (forward_edge_index example_model example_positions (Some [0, 0]))
                \<union> set (forward_gnn_edge_index example_model example_positions (Some [0, 0]))"
      by (simp add: example_radius_graph)
    from bspec [OF g this] show ?thesis by simp
  qed
  moreover have "replica_batch 2 2 ! 2 = replica_batch 2 2 ! 3"
  proof -
    have "(2, 3) \<in> set (replica_pairs 2 2)"
      by (simp add: replica_pairs_2_2)
    from bspec [OF r this] show ?thesis by simp
  qed
  moreover have "build_edge_idx 2 2 = Inr ([0, 1, 2, 3], [1, 0, 3, 2])"
    using b by (simp add: replica_pairs_2_2)
  moreover have "length (replica_pairs 2 2) = 4"
    using l by simp
  ultimately show ?thesis
    using d example_radius_graph by simp
qed

end
